theory Spec2Isabelle
  imports Complex_Main
begin

section \<open>Engine types used by the enemy template code\<close>

text \<open>
  The enemy creator sits on top of engine types that are not part of the repository.
  They are represented by what the code observes of them.

  \<^item> An engine name (\<open>FName\<close>) is either the distinguished name \<open>None\<close> or some other
    name; \<open>IsNone\<close> tests for the former.
  \<^item> A localisable text (\<open>FText\<close>) used as a message is kept symbolically: the literal of
    an \<open>NSLOCTEXT\<close>, or a format pattern with its ordered arguments. No culture-dependent
    rendering is modelled.
  \<^item> A soft reference (\<open>TSoftObjectPtr\<close>) is represented by its two observations,
    \<open>IsValid()\<close> and \<open>Get()\<close>; the code tests them one after the other.
  \<^item> A \<open>float\<close> that is only stored and compared is the real number it stands for. The
    stats, which \<open>ApplyToInstance\<close> multiplies, are values of the type \<open>float\<close> below:
    a stored value or the float product of a stat with a multiplier, kept as a term. What
    the machine's multiplication makes of it (rounding, overflow, NaN) is not computed
    here, so nothing is assumed about it.
  \<^item> A \<open>TMap\<close> is the list of its (key, value) pairs in iteration order; \<open>Contains\<close>
    followed by \<open>operator[]\<close> on the same key is one lookup with \<open>map_of\<close>.
\<close>

datatype FName = NAME_None | Name string

fun IsNone :: "FName \<Rightarrow> bool" where
  "IsNone NAME_None = True"
| "IsNone (Name s) = False"

fun ToString :: "FName \<Rightarrow> string" where
  "ToString NAME_None = ''None''"
| "ToString (Name s) = s"

datatype FText =
    NSLOCTEXT string string string
  | Format FText "FText list"
  | AsNumber_float real
  | AsNumber_int int
  | FromName FName
  | FromString string

datatype 'a TSoftObjectPtr = SoftObjectPtr (IsValid: bool) (Get: "'a option")

type_synonym asset = string
type_synonym FGameplayTagContainer = "string list"
type_synonym FVector = "real \<times> real \<times> real"
type_synonym FLinearColor = "real \<times> real \<times> real \<times> real"
type_synonym ('k, 'v) TMap = "('k \<times> 'v) list"

section \<open>EnemyTemplateTypes.h\<close>

datatype float = FloatValue real | FloatProduct float real

record FEnemyBaseStats =
  Health :: float
  Damage :: float
  Speed :: float
  AttackSpeed :: float
  Defense :: float
  CriticalChance :: float
  CriticalMultiplier :: float

text \<open>
  \<open>AbilityClass\<close> is read by \<open>ValidateAbilities\<close> and \<open>ApplyAbility\<close> in
  EnemyTemplate.cpp; the struct is taken with that field.
\<close>

record FEnemyAbilityDefinition =
  AbilityName :: FName
  AbilityDisplayName :: string
  AbilityDescription :: string
  AbilityTags :: FGameplayTagContainer
  CooldownTime :: real
  Range :: real
  Cost :: real
  bIsPassive :: bool
  AbilityClass :: "asset TSoftObjectPtr"
  AbilityMontage :: "asset TSoftObjectPtr"
  AbilityEffects :: "asset TSoftObjectPtr list"

record FEnemyAIConfig =
  BehaviorTree :: "asset TSoftObjectPtr"
  Blackboard :: "asset TSoftObjectPtr"
  AggressionLevel :: real
  PreferredRange :: real
  bUseCover :: bool
  bCoordinateWithAllies :: bool
  BehaviorParameters :: "(FName, real) TMap"
  PersonalityTags :: FGameplayTagContainer

record FEnemyVisualCustomization =
  SkeletalMesh :: "asset TSoftObjectPtr"
  AnimationBlueprint :: "asset TSoftObjectPtr"
  Scale :: FVector
  ColorTint :: FLinearColor
  ScalarParameters :: "(FName, real) TMap"
  VectorParameters :: "(FName, FLinearColor) TMap"
  TextureParameters :: "(FName, asset TSoftObjectPtr) TMap"
  MaterialOverrides :: "(int, asset TSoftObjectPtr) TMap"

record FEnemyTemplateModification =
  StatMultipliers :: "(FName, real) TMap"
  ModifiedAbilities :: "(FName, FEnemyAbilityDefinition) TMap"
  AIModifications :: FEnemyAIConfig
  VisualModifications :: FEnemyVisualCustomization
  AdditionalTags :: FGameplayTagContainer

record FEnemyTemplateValidationResult =
  bIsValid :: bool
  ValidationErrors :: "FText list"
  ValidationWarnings :: "FText list"

text \<open>A default-constructed result: \<open>bIsValid = false\<close> and two empty arrays.\<close>

definition DefaultResult :: FEnemyTemplateValidationResult where
  "DefaultResult = \<lparr>bIsValid = False, ValidationErrors = [], ValidationWarnings = []\<rparr>"

definition AddError :: "FText \<Rightarrow> FEnemyTemplateValidationResult \<Rightarrow> FEnemyTemplateValidationResult" where
  "AddError e r = r\<lparr>ValidationErrors := ValidationErrors r @ [e], bIsValid := False\<rparr>"

definition AddWarning :: "FText \<Rightarrow> FEnemyTemplateValidationResult \<Rightarrow> FEnemyTemplateValidationResult" where
  "AddWarning w r = r\<lparr>ValidationWarnings := ValidationWarnings r @ [w]\<rparr>"

definition Clear :: "FEnemyTemplateValidationResult \<Rightarrow> FEnemyTemplateValidationResult" where
  "Clear r = r\<lparr>bIsValid := True, ValidationErrors := [], ValidationWarnings := []\<rparr>"

section \<open>UEnemyTemplate\<close>

text \<open>
  Template objects live in the object heap and refer to their parent by pointer. The heap
  is a function from addresses to objects over a finite address type \<open>'a\<close>; a nullable
  pointer is an \<open>'a option\<close>. The fields are those EnemyTemplate.cpp reads and writes.
\<close>

record 'a UEnemyTemplate =
  TemplateName :: FName
  DisplayName :: string
  Description :: string
  ParentTemplate :: "'a option"
  TemplateTags :: FGameplayTagContainer
  BaseStats :: FEnemyBaseStats
  AIConfig :: FEnemyAIConfig
  VisualCustomization :: FEnemyVisualCustomization
  Abilities :: "FEnemyAbilityDefinition list"
  CachedInheritanceChain :: "'a list"
  bNeedsInheritanceChainUpdate :: bool

type_synonym 'a heap = "'a \<Rightarrow> 'a UEnemyTemplate"

subsection \<open>Messages\<close>

definition NoTemplateName :: FText where
  "NoTemplateName = NSLOCTEXT ''EnemyCreator'' ''NoTemplateName'' ''Template name is required''"

definition NoDisplayName :: FText where
  "NoDisplayName = NSLOCTEXT ''EnemyCreator'' ''NoDisplayName'' ''Display name is empty''"

definition InvalidParentTemplate :: "FName \<Rightarrow> FText" where
  "InvalidParentTemplate n =
     Format (NSLOCTEXT ''EnemyCreator'' ''InvalidParentTemplate'' ''Parent template '{0}' is invalid'')
       [FromString (ToString n)]"

definition NoSkeletalMesh :: FText where
  "NoSkeletalMesh = NSLOCTEXT ''EnemyCreator'' ''NoSkeletalMesh'' ''Skeletal mesh is required''"

definition NoAnimBP :: FText where
  "NoAnimBP = NSLOCTEXT ''EnemyCreator'' ''NoAnimBP'' ''No animation blueprint specified''"

definition NoBehaviorTree :: FText where
  "NoBehaviorTree = NSLOCTEXT ''EnemyCreator'' ''NoBehaviorTree'' ''Behavior tree is required''"

definition NoBlackboard :: FText where
  "NoBlackboard = NSLOCTEXT ''EnemyCreator'' ''NoBlackboard'' ''Blackboard is required''"

definition NoAbilityName :: "int \<Rightarrow> FText" where
  "NoAbilityName i =
     Format (NSLOCTEXT ''EnemyCreator'' ''NoAbilityName'' ''Ability name is required for ability at index {0}'')
       [AsNumber_int i]"

definition NoAbilityClass :: "FName \<Rightarrow> FText" where
  "NoAbilityClass n =
     Format (NSLOCTEXT ''EnemyCreator'' ''NoAbilityClass''
               (''Ability class is required for ability '{0}'' @ [CHR 0x27]))
       [FromName n]"

definition NoBaseTemplate :: FText where
  "NoBaseTemplate = NSLOCTEXT ''EnemyCreator'' ''NoBaseTemplate'' ''No base template specified''"

definition InvalidBaseTemplate :: FText where
  "InvalidBaseTemplate =
     NSLOCTEXT ''EnemyCreator'' ''InvalidBaseTemplate'' ''Base template reference is invalid''"

definition InvalidStatMultiplier :: "real \<Rightarrow> FName \<Rightarrow> FText" where
  "InvalidStatMultiplier v k =
     Format (NSLOCTEXT ''EnemyCreator'' ''InvalidStatMultiplier'' ''Invalid multiplier value {0} for stat {1}'')
       [AsNumber_float v, FromName k]"

definition InvalidAbilityModification :: FText where
  "InvalidAbilityModification =
     NSLOCTEXT ''EnemyCreator'' ''InvalidAbilityModification'' ''Invalid ability modification key''"

definition UnknownAbilityModification :: "FName \<Rightarrow> FText" where
  "UnknownAbilityModification k =
     Format (NSLOCTEXT ''EnemyCreator'' ''UnknownAbilityModification'' ''Modification targets unknown ability {0}'')
       [FromName k]"

subsection \<open>The checks of ValidateTemplate\<close>

text \<open>
  Each check takes the result being filled and returns its boolean together with the
  updated result.
\<close>

definition ValidateVisualAssets ::
  "'a UEnemyTemplate \<Rightarrow> FEnemyTemplateValidationResult \<Rightarrow> bool \<times> FEnemyTemplateValidationResult" where
  "ValidateVisualAssets this OutResult =
     (if \<not> IsValid (SkeletalMesh (VisualCustomization this))
      then (False, AddError NoSkeletalMesh OutResult)
      else (True,
            if \<not> IsValid (AnimationBlueprint (VisualCustomization this))
            then AddWarning NoAnimBP OutResult else OutResult))"

definition ValidateAIConfiguration ::
  "'a UEnemyTemplate \<Rightarrow> FEnemyTemplateValidationResult \<Rightarrow> bool \<times> FEnemyTemplateValidationResult" where
  "ValidateAIConfiguration this OutResult =
     (if \<not> IsValid (BehaviorTree (AIConfig this))
      then (False, AddError NoBehaviorTree OutResult)
      else if \<not> IsValid (Blackboard (AIConfig this))
      then (False, AddError NoBlackboard OutResult)
      else (True, OutResult))"

text \<open>\<open>TArray::IndexOfByKey\<close>: the index of the first equal element, \<open>INDEX_NONE\<close> if none.\<close>

fun IndexOfByKey :: "'b list \<Rightarrow> 'b \<Rightarrow> int" where
  "IndexOfByKey [] x = -1"
| "IndexOfByKey (y # ys) x =
     (if y = x then 0
      else (let i = IndexOfByKey ys x in if i < 0 then -1 else i + 1))"

text \<open>
  The loop of \<open>ValidateAbilities\<close> over the abilities still to visit; \<open>all\<close> is the whole
  array, which the index in the message is looked up in.
\<close>

fun ValidateAbilities_loop ::
  "FEnemyAbilityDefinition list \<Rightarrow> FEnemyAbilityDefinition list \<Rightarrow>
   bool \<times> FEnemyTemplateValidationResult \<Rightarrow> bool \<times> FEnemyTemplateValidationResult" where
  "ValidateAbilities_loop all [] (ok, r) = (ok, r)"
| "ValidateAbilities_loop all (Ability # rest) (ok, r) =
     (let (ok1, r1) =
            (if IsNone (AbilityName Ability)
             then (False, AddError (NoAbilityName (IndexOfByKey all Ability)) r)
             else (ok, r));
          (ok2, r2) =
            (if \<not> IsValid (AbilityClass Ability)
             then (False, AddError (NoAbilityClass (AbilityName Ability)) r1)
             else (ok1, r1))
      in ValidateAbilities_loop all rest (ok2, r2))"

definition ValidateAbilities ::
  "'a UEnemyTemplate \<Rightarrow> FEnemyTemplateValidationResult \<Rightarrow> bool \<times> FEnemyTemplateValidationResult" where
  "ValidateAbilities this OutResult =
     ValidateAbilities_loop (Abilities this) (Abilities this) (True, OutResult)"

subsection \<open>ValidateTemplate\<close>

text \<open>
  \<open>ValidateTemplate\<close> calls itself on the parent before its own asset checks and nothing
  bounds that recursion, so the function is partial: \<open>None\<close> stands for a call that does
  not return.
\<close>

partial_function (option) ValidateTemplate ::
  "'a heap \<Rightarrow> 'a \<Rightarrow> FEnemyTemplateValidationResult \<Rightarrow>
   (bool \<times> FEnemyTemplateValidationResult) option" where
  "ValidateTemplate h this OutResult =
     (let r0 = Clear OutResult;
          r1 = (if IsNone (TemplateName (h this)) then AddError NoTemplateName r0 else r0);
          r2 = (if DisplayName (h this) = [] then AddWarning NoDisplayName r1 else r1)
      in Option.bind
           (case ParentTemplate (h this) of
              None \<Rightarrow> Some r2
            | Some parent \<Rightarrow>
                Option.bind (ValidateTemplate h parent DefaultResult)
                  (\<lambda>(ok, ParentResult).
                     if \<not> ok
                     then (let r3 = AddError (InvalidParentTemplate (TemplateName (h parent))) r2
                           in Some (r3\<lparr>ValidationErrors :=
                                          ValidationErrors r3 @ ValidationErrors ParentResult\<rparr>))
                     else Some r2))
           (\<lambda>r4.
              case ValidateVisualAssets (h this) r4 of
                (False, r5) \<Rightarrow> Some (False, r5)
              | (True, r5) \<Rightarrow>
                  (case ValidateAIConfiguration (h this) r5 of
                     (False, r6) \<Rightarrow> Some (False, r6)
                   | (True, r6) \<Rightarrow>
                       (case ValidateAbilities (h this) r6 of
                          (False, r7) \<Rightarrow> Some (False, r7)
                        | (True, r7) \<Rightarrow> Some (bIsValid r7, r7)))))"

declare ValidateTemplate.simps [code]

subsection \<open>GetInheritanceChain\<close>

text \<open>
  The loop of \<open>GetInheritanceChain\<close>: \<open>chain\<close> is the array built so far and \<open>Current\<close> the
  pointer of the loop condition. One iteration appends \<open>Current\<close>, moves to its parent and
  leaves the loop when that parent is already in the array. The loop writes only the
  cache field of \<open>this\<close> and reads only parent pointers, so the array is passed as an
  accumulator and stored after the loop.
\<close>

function GetInheritanceChain_loop :: "('a::finite) heap \<Rightarrow> 'a list \<Rightarrow> 'a option \<Rightarrow> 'a list" where
  "GetInheritanceChain_loop h chain None = chain"
| "GetInheritanceChain_loop h chain (Some Current) =
     (let chain' = chain @ [Current];
          Next = ParentTemplate (h Current)
      in if (case Next of None \<Rightarrow> False | Some n \<Rightarrow> n \<in> set chain')
         then chain'
         else GetInheritanceChain_loop h chain' Next)"
  by pat_completeness auto
termination
proof (relation "measure (\<lambda>(h, chain, cur).
         case cur of None \<Rightarrow> 0 | Some c \<Rightarrow> Suc (card (- (insert c (set chain)))))")
  show "wf (measure (\<lambda>(h :: 'a heap, chain, cur).
         case cur of None \<Rightarrow> 0 | Some c \<Rightarrow> Suc (card (- (insert c (set chain))))))"
    by simp
next
  fix h :: "'a heap" and chain :: "'a list" and Current :: 'a and chain' Next
  assume c: "chain' = chain @ [Current]" and n: "Next = ParentTemplate (h Current)"
    and stay: "\<not> (case Next of None \<Rightarrow> False | Some n \<Rightarrow> n \<in> set chain')"
  show "((h, chain', Next), (h, chain, Some Current))
        \<in> measure (\<lambda>(h, chain, cur).
             case cur of None \<Rightarrow> 0 | Some c \<Rightarrow> Suc (card (- (insert c (set chain)))))"
  proof (cases Next)
    case None
    then show ?thesis by simp
  next
    case (Some p)
    with stay c have fresh: "p \<notin> insert Current (set chain)" by auto
    have "- (insert p (set chain')) \<subset> - (insert Current (set chain))"
      using fresh c by auto
    then have "card (- (insert p (set chain'))) < card (- (insert Current (set chain)))"
      by (intro psubset_card_mono) simp_all
    with Some show ?thesis by simp
  qed
qed


text \<open>
  \<open>GetInheritanceChain\<close> returns the cached array and leaves the heap with the cache of
  \<open>this\<close> filled and its flag reset. The second component is the heap after the call.
\<close>

definition GetInheritanceChain :: "('a::finite) heap \<Rightarrow> 'a \<Rightarrow> 'a list \<times> 'a heap" where
  "GetInheritanceChain h this =
     (if bNeedsInheritanceChainUpdate (h this)
      then (let chain = GetInheritanceChain_loop h [] (Some this);
                h' = h(this := (h this)\<lparr>CachedInheritanceChain := chain,
                                        bNeedsInheritanceChainUpdate := False\<rparr>)
            in (CachedInheritanceChain (h' this), h'))
      else (CachedInheritanceChain (h this), h))"


subsection \<open>ApplyToInstance\<close>

text \<open>
  \<open>ApplyToInstance\<close> calls \<open>GetStatValuePtr(FinalStats, Key)\<close> and tests the returned
  pointer against null. The helper is defined nowhere in the sources, so the embedding
  takes it as a parameter \<open>resolve\<close>: a key is mapped to one of the seven fields of the
  stats struct (a non-null pointer into \<open>FinalStats\<close>) or to nothing (null).
\<close>

datatype StatField =
  StatHealth | StatDamage | StatSpeed | StatAttackSpeed | StatDefense
  | StatCriticalChance | StatCriticalMultiplier

fun StatValue :: "StatField \<Rightarrow> FEnemyBaseStats \<Rightarrow> float" where
  "StatValue StatHealth s = Health s"
| "StatValue StatDamage s = Damage s"
| "StatValue StatSpeed s = Speed s"
| "StatValue StatAttackSpeed s = AttackSpeed s"
| "StatValue StatDefense s = Defense s"
| "StatValue StatCriticalChance s = CriticalChance s"
| "StatValue StatCriticalMultiplier s = CriticalMultiplier s"

text \<open>
  The assignment \<open>*StatValue *= m\<close> through such a pointer: the field becomes the float
  product of its value and \<open>m\<close>.
\<close>

fun MultiplyStat :: "StatField \<Rightarrow> real \<Rightarrow> FEnemyBaseStats \<Rightarrow> FEnemyBaseStats" where
  "MultiplyStat StatHealth m s = s\<lparr>Health := FloatProduct (Health s) m\<rparr>"
| "MultiplyStat StatDamage m s = s\<lparr>Damage := FloatProduct (Damage s) m\<rparr>"
| "MultiplyStat StatSpeed m s = s\<lparr>Speed := FloatProduct (Speed s) m\<rparr>"
| "MultiplyStat StatAttackSpeed m s = s\<lparr>AttackSpeed := FloatProduct (AttackSpeed s) m\<rparr>"
| "MultiplyStat StatDefense m s = s\<lparr>Defense := FloatProduct (Defense s) m\<rparr>"
| "MultiplyStat StatCriticalChance m s = s\<lparr>CriticalChance := FloatProduct (CriticalChance s) m\<rparr>"
| "MultiplyStat StatCriticalMultiplier m s =
     s\<lparr>CriticalMultiplier := FloatProduct (CriticalMultiplier s) m\<rparr>"

text \<open>The loop over \<open>Modification->StatMultipliers\<close>.\<close>

fun ApplyStatMultipliers ::
  "(FName \<Rightarrow> StatField option) \<Rightarrow> (FName, real) TMap \<Rightarrow> FEnemyBaseStats \<Rightarrow> FEnemyBaseStats" where
  "ApplyStatMultipliers resolve [] FinalStats = FinalStats"
| "ApplyStatMultipliers resolve ((Key, Value) # rest) FinalStats =
     ApplyStatMultipliers resolve rest
       (case resolve Key of
          None \<Rightarrow> FinalStats
        | Some StatPtr \<Rightarrow> MultiplyStat StatPtr Value FinalStats)"

text \<open>
  \<open>ApplyAbility\<close> returns at once on a null ability system or an ability without valid
  class; otherwise it gives the ability to the ability system. \<open>granted\<close> is the list of
  the abilities given so far. The gameplay effects the function applies afterwards are
  engine calls on the same ability and are left out.
\<close>

definition ApplyAbility ::
  "bool \<Rightarrow> FEnemyAbilityDefinition \<Rightarrow> FEnemyAbilityDefinition list \<Rightarrow>
   FEnemyAbilityDefinition list" where
  "ApplyAbility AbilitySystem Ability granted =
     (if \<not> AbilitySystem \<or> \<not> IsValid (AbilityClass Ability) then granted
      else granted @ [Ability])"

text \<open>
  The loop over the template's abilities, entered with a non-null ability system.
  \<open>applied\<close> collects the arguments of the calls to \<open>ApplyAbility\<close>, in call order, and
  \<open>granted\<close> is what these calls give to the ability system.
\<close>

fun ApplyAbilities_loop ::
  "FEnemyTemplateModification option \<Rightarrow> FEnemyAbilityDefinition list \<Rightarrow>
   FEnemyAbilityDefinition list \<times> FEnemyAbilityDefinition list \<Rightarrow>
   FEnemyAbilityDefinition list \<times> FEnemyAbilityDefinition list" where
  "ApplyAbilities_loop Modification [] (applied, granted) = (applied, granted)"
| "ApplyAbilities_loop Modification (Ability # rest) (applied, granted) =
     (case (case Modification of
              None \<Rightarrow> None
            | Some M \<Rightarrow> map_of (ModifiedAbilities M) (AbilityName Ability)) of
        Some Override \<Rightarrow>
          ApplyAbilities_loop Modification rest
            (applied @ [Override], ApplyAbility True Override granted)
      | None \<Rightarrow>
          ApplyAbilities_loop Modification rest
            (applied @ [Ability], ApplyAbility True Ability granted))"

text \<open>
  Of the character only the presence of an ability system component matters here. What
  \<open>ApplyToInstance\<close> does is recorded as the final value of \<open>FinalStats\<close>, the arguments
  of \<open>ApplyVisualCustomization\<close> and \<open>ApplyAIConfiguration\<close>, the arguments of the calls
  to \<open>ApplyAbility\<close> and the abilities these calls give to the ability system. The result
  \<open>None\<close> is the early \<open>return false\<close> on a null instance; \<open>Some\<close> is \<open>return true\<close>.
\<close>

record ACharacter =
  HasAbilitySystemComponent :: bool

record ApplyEffects =
  FinalStats :: FEnemyBaseStats
  FinalVisuals :: FEnemyVisualCustomization
  FinalAIConfig :: FEnemyAIConfig
  AppliedAbilities :: "FEnemyAbilityDefinition list"
  GrantedAbilities :: "FEnemyAbilityDefinition list"

definition ApplyToInstance ::
  "(FName \<Rightarrow> StatField option) \<Rightarrow> 'a UEnemyTemplate \<Rightarrow> ACharacter option \<Rightarrow>
   FEnemyTemplateModification option \<Rightarrow> ApplyEffects option" where
  "ApplyToInstance resolve this EnemyInstance Modification =
     (case EnemyInstance of
        None \<Rightarrow> None
      | Some Instance \<Rightarrow>
          (let calls = (if HasAbilitySystemComponent Instance
                        then ApplyAbilities_loop Modification (Abilities this) ([], [])
                        else ([], []))
           in Some \<lparr>FinalStats =
                       (case Modification of
                          None \<Rightarrow> BaseStats this
                        | Some M \<Rightarrow>
                            ApplyStatMultipliers resolve (StatMultipliers M) (BaseStats this)),
                     FinalVisuals =
                       (case Modification of
                          None \<Rightarrow> VisualCustomization this
                        | Some M \<Rightarrow> VisualModifications M),
                     FinalAIConfig =
                       (case Modification of
                          None \<Rightarrow> AIConfig this
                        | Some M \<Rightarrow> AIModifications M),
                     AppliedAbilities = fst calls,
                     GrantedAbilities = snd calls\<rparr>))"

section \<open>UEnemyConfiguration\<close>

record 'a UEnemyConfiguration =
  BaseTemplate :: "'a TSoftObjectPtr"
  Modifications :: FEnemyTemplateModification

text \<open>
  The two loops of \<open>ValidateConfiguration\<close>. Each returns \<open>False\<close> with the error added
  at its \<open>return false\<close>, and \<open>True\<close> with the result untouched when it runs to the end.
\<close>

fun ValidateStatMultipliers_loop ::
  "(FName, real) TMap \<Rightarrow> FEnemyTemplateValidationResult \<Rightarrow> bool \<times> FEnemyTemplateValidationResult" where
  "ValidateStatMultipliers_loop [] r = (True, r)"
| "ValidateStatMultipliers_loop ((Key, Value) # rest) r =
     (if Value \<le> 0 then (False, AddError (InvalidStatMultiplier Value Key) r)
      else ValidateStatMultipliers_loop rest r)"

fun bAbilityFound :: "FEnemyAbilityDefinition list \<Rightarrow> FName \<Rightarrow> bool" where
  "bAbilityFound [] Key = False"
| "bAbilityFound (TemplateAbility # rest) Key =
     (if AbilityName TemplateAbility = Key then True else bAbilityFound rest Key)"

fun ValidateModifiedAbilities_loop ::
  "FEnemyAbilityDefinition list \<Rightarrow> (FName, FEnemyAbilityDefinition) TMap \<Rightarrow>
   FEnemyTemplateValidationResult \<Rightarrow> bool \<times> FEnemyTemplateValidationResult" where
  "ValidateModifiedAbilities_loop abilities [] r = (True, r)"
| "ValidateModifiedAbilities_loop abilities ((Key, Value) # rest) r =
     (if IsNone Key then (False, AddError InvalidAbilityModification r)
      else if \<not> bAbilityFound abilities Key
      then (False, AddError (UnknownAbilityModification Key) r)
      else ValidateModifiedAbilities_loop abilities rest r)"

definition ValidateConfiguration ::
  "'a heap \<Rightarrow> 'a UEnemyConfiguration \<Rightarrow> FEnemyTemplateValidationResult \<Rightarrow>
   (bool \<times> FEnemyTemplateValidationResult) option" where
  "ValidateConfiguration h cfg OutResult =
     (let r0 = Clear OutResult
      in if \<not> IsValid (BaseTemplate cfg) then Some (False, AddError NoBaseTemplate r0)
         else (case Get (BaseTemplate cfg) of
                 None \<Rightarrow> Some (False, AddError InvalidBaseTemplate r0)
               | Some Template \<Rightarrow>
                   Option.bind (ValidateTemplate h Template r0)
                     (\<lambda>(ok, r1).
                        if \<not> ok then Some (False, r1)
                        else (case ValidateStatMultipliers_loop
                                     (StatMultipliers (Modifications cfg)) r1 of
                                (False, r2) \<Rightarrow> Some (False, r2)
                              | (True, r2) \<Rightarrow>
                                  (case ValidateModifiedAbilities_loop (Abilities (h Template))
                                          (ModifiedAbilities (Modifications cfg)) r2 of
                                     (False, r3) \<Rightarrow> Some (False, r3)
                                   | (True, r3) \<Rightarrow> Some (True, r3))))))"

section \<open>Notions used in the statements\<close>

text \<open>
  The result invariant: the flag is set exactly when no error has been recorded.
\<close>

definition result_inv :: "FEnemyTemplateValidationResult \<Rightarrow> bool" where
  "result_inv r = (bIsValid r = (ValidationErrors r = []))"

text \<open>
  \<open>ValidateTemplate\<close> read as three stages: the identity checks on a cleared result,
  the validation of the parent with its errors appended, and the three asset checks
  with their early returns. The lemma \<open>ValidateTemplate_stages\<close> below shows that the
  function is their composition.
\<close>

definition IdentityStage :: "'a UEnemyTemplate \<Rightarrow> FEnemyTemplateValidationResult" where
  "IdentityStage this =
     (let r0 = Clear DefaultResult;
          r1 = (if IsNone (TemplateName this) then AddError NoTemplateName r0 else r0)
      in if DisplayName this = [] then AddWarning NoDisplayName r1 else r1)"

definition ParentStage ::
  "'a heap \<Rightarrow> 'a \<Rightarrow> FEnemyTemplateValidationResult \<Rightarrow> FEnemyTemplateValidationResult option" where
  "ParentStage h this r2 =
     (case ParentTemplate (h this) of
        None \<Rightarrow> Some r2
      | Some parent \<Rightarrow>
          (case ValidateTemplate h parent DefaultResult of
             None \<Rightarrow> None
           | Some (ok, ParentResult) \<Rightarrow>
               if ok then Some r2
               else Some ((AddError (InvalidParentTemplate (TemplateName (h parent))) r2)
                          \<lparr>ValidationErrors :=
                             ValidationErrors r2 @ InvalidParentTemplate (TemplateName (h parent))
                               # ValidationErrors ParentResult\<rparr>)))"

definition AssetStage ::
  "'a UEnemyTemplate \<Rightarrow> FEnemyTemplateValidationResult \<Rightarrow> bool \<times> FEnemyTemplateValidationResult" where
  "AssetStage this r4 =
     (case ValidateVisualAssets this r4 of
        (False, r5) \<Rightarrow> (False, r5)
      | (True, r5) \<Rightarrow>
          (case ValidateAIConfiguration this r5 of
             (False, r6) \<Rightarrow> (False, r6)
           | (True, r6) \<Rightarrow>
               (case ValidateAbilities this r6 of
                  (False, r7) \<Rightarrow> (False, r7)
                | (True, r7) \<Rightarrow> (bIsValid r7, r7))))"

text \<open>
  The errors and warnings the first two stages leave in the result.
\<close>

definition IdentityErrors :: "'a UEnemyTemplate \<Rightarrow> FText list" where
  "IdentityErrors this = (if IsNone (TemplateName this) then [NoTemplateName] else [])"

definition IdentityWarnings :: "'a UEnemyTemplate \<Rightarrow> FText list" where
  "IdentityWarnings this = (if DisplayName this = [] then [NoDisplayName] else [])"

definition ParentErrors :: "'a heap \<Rightarrow> 'a \<Rightarrow> FText list" where
  "ParentErrors h this =
     (case ParentTemplate (h this) of
        None \<Rightarrow> []
      | Some parent \<Rightarrow>
          (case ValidateTemplate h parent DefaultResult of
             Some (False, ParentResult) \<Rightarrow>
               InvalidParentTemplate (TemplateName (h parent)) # ValidationErrors ParentResult
           | _ \<Rightarrow> []))"

text \<open>
  The parent chain of a template ends when following parent pointers reaches a
  template without parent. \<open>parent_rel\<close> is the parent pointer as a relation,
  \<open>Reachable\<close> the templates on the chain, and a chain is cyclic when it reaches a
  template that is its own ancestor. \<open>parent_linked\<close> says that each element of a list
  is followed by its parent.
\<close>

inductive ParentChainEnds :: "'a heap \<Rightarrow> 'a \<Rightarrow> bool" for h :: "'a heap" where
  root: "ParentTemplate (h t) = None \<Longrightarrow> ParentChainEnds h t"
| child: "ParentTemplate (h t) = Some p \<Longrightarrow> ParentChainEnds h p \<Longrightarrow> ParentChainEnds h t"

definition parent_rel :: "'a heap \<Rightarrow> ('a \<times> 'a) set" where
  "parent_rel h = {(a, p). ParentTemplate (h a) = Some p}"

definition Reachable :: "'a heap \<Rightarrow> 'a \<Rightarrow> 'a set" where
  "Reachable h t = {a. (t, a) \<in> (parent_rel h)\<^sup>*}"

definition CyclicParentChain :: "'a heap \<Rightarrow> 'a \<Rightarrow> bool" where
  "CyclicParentChain h t = (\<exists>a. (t, a) \<in> (parent_rel h)\<^sup>* \<and> (a, a) \<in> (parent_rel h)\<^sup>+)"

fun parent_linked :: "'a heap \<Rightarrow> 'a list \<Rightarrow> bool" where
  "parent_linked h [] = True"
| "parent_linked h [x] = True"
| "parent_linked h (x # y # zs) = (ParentTemplate (h x) = Some y \<and> parent_linked h (y # zs))"


text \<open>
  Two heaps have the same template fields when they differ at most in the cached chains
  and their flags, the transient state \<open>GetInheritanceChain\<close> writes.
\<close>

definition SameTemplateFields :: "'a heap \<Rightarrow> 'a heap \<Rightarrow> bool" where
  "SameTemplateFields h h' =
     (\<forall>a. h' a = (h a)\<lparr>CachedInheritanceChain := CachedInheritanceChain (h' a),
                        bNeedsInheritanceChainUpdate := bNeedsInheritanceChainUpdate (h' a)\<rparr>)"

text \<open>
  The value of a stat under a reading of floats: \<open>lit\<close> gives the float a stored number
  stands for and \<open>mul\<close> is the multiplication of floats. Both are arbitrary, so a
  statement about \<open>FloatResult lit mul\<close> holds for the arithmetic of the machine.
\<close>

fun FloatResult :: "(real \<Rightarrow> 'v) \<Rightarrow> ('v \<Rightarrow> 'v \<Rightarrow> 'v) \<Rightarrow> float \<Rightarrow> 'v" where
  "FloatResult lit mul (FloatValue x) = lit x"
| "FloatResult lit mul (FloatProduct a m) = mul (FloatResult lit mul a) (lit m)"

text \<open>
  The ability \<open>ApplyToInstance\<close> passes on for one template ability, and the entries
  at which the loops of \<open>ValidateConfiguration\<close> return.
\<close>

definition EffectiveAbility ::
  "FEnemyTemplateModification option \<Rightarrow> FEnemyAbilityDefinition \<Rightarrow> FEnemyAbilityDefinition" where
  "EffectiveAbility Modification Ability =
     (case Modification of
        None \<Rightarrow> Ability
      | Some M \<Rightarrow>
          (case map_of (ModifiedAbilities M) (AbilityName Ability) of
             None \<Rightarrow> Ability
           | Some Override \<Rightarrow> Override))"

fun BadMultiplier :: "FName \<times> real \<Rightarrow> bool" where
  "BadMultiplier (Key, Value) = (Value \<le> 0)"

fun BadAbilityKey :: "FEnemyAbilityDefinition list \<Rightarrow> FName \<times> FEnemyAbilityDefinition \<Rightarrow> bool" where
  "BadAbilityKey abilities (Key, Value) = (IsNone Key \<or> \<not> bAbilityFound abilities Key)"

fun AbilityKeyError :: "FName \<times> FEnemyAbilityDefinition \<Rightarrow> FText" where
  "AbilityKeyError (Key, Value) =
     (if IsNone Key then InvalidAbilityModification else UnknownAbilityModification Key)"

section \<open>Example objects\<close>

text \<open>
  Concrete templates, heaps and configurations on which the theorems are instantiated.
  The stats are the defaults of \<open>FEnemyBaseStats\<close>. \<open>FieldNameLookup\<close> is a value for
  the \<open>resolve\<close> parameter that knows the fields by their names in the struct.
\<close>

definition ExampleAsset :: "bool \<Rightarrow> asset TSoftObjectPtr" where
  "ExampleAsset loaded = SoftObjectPtr loaded (if loaded then Some ''Asset'' else None)"

definition ExampleVisuals :: "bool \<Rightarrow> bool \<Rightarrow> FEnemyVisualCustomization" where
  "ExampleVisuals mesh anim =
     \<lparr>SkeletalMesh = ExampleAsset mesh, AnimationBlueprint = ExampleAsset anim,
      Scale = (1, 1, 1), ColorTint = (1, 1, 1, 1), ScalarParameters = [],
      VectorParameters = [], TextureParameters = [], MaterialOverrides = []\<rparr>"

definition ExampleAI :: "bool \<Rightarrow> bool \<Rightarrow> FEnemyAIConfig" where
  "ExampleAI tree board =
     \<lparr>BehaviorTree = ExampleAsset tree, Blackboard = ExampleAsset board,
      AggressionLevel = 1 / 2, PreferredRange = 300, bUseCover = False,
      bCoordinateWithAllies = False, BehaviorParameters = [], PersonalityTags = []\<rparr>"

definition ExampleStats :: FEnemyBaseStats where
  "ExampleStats =
     \<lparr>Health = FloatValue 100, Damage = FloatValue 20, Speed = FloatValue 300,
      AttackSpeed = FloatValue 1, Defense = FloatValue 10,
      CriticalChance = FloatValue (1 / 20), CriticalMultiplier = FloatValue 2\<rparr>"

definition ExampleAbility :: "FName \<Rightarrow> real \<Rightarrow> bool \<Rightarrow> FEnemyAbilityDefinition" where
  "ExampleAbility n rng cls =
     \<lparr>AbilityName = n, AbilityDisplayName = ToString n, AbilityDescription = [],
      AbilityTags = [], CooldownTime = 0, Range = rng, Cost = 0, bIsPassive = False,
      AbilityClass = ExampleAsset cls, AbilityMontage = ExampleAsset False,
      AbilityEffects = []\<rparr>"

definition ExampleTemplate ::
  "FName \<Rightarrow> 'a option \<Rightarrow> FEnemyVisualCustomization \<Rightarrow> FEnemyAIConfig \<Rightarrow>
   FEnemyAbilityDefinition list \<Rightarrow> 'a UEnemyTemplate" where
  "ExampleTemplate n parent visuals ai abilities =
     \<lparr>TemplateName = n, DisplayName = ToString n, Description = [],
      ParentTemplate = parent, TemplateTags = [], BaseStats = ExampleStats,
      AIConfig = ai, VisualCustomization = visuals, Abilities = abilities,
      CachedInheritanceChain = [], bNeedsInheritanceChainUpdate = True\<rparr>"

fun FieldNameLookup :: "FName \<Rightarrow> StatField option" where
  "FieldNameLookup NAME_None = None"
| "FieldNameLookup (Name s) =
     (if s = ''Health'' then Some StatHealth
      else if s = ''Damage'' then Some StatDamage
      else if s = ''Speed'' then Some StatSpeed
      else if s = ''AttackSpeed'' then Some StatAttackSpeed
      else if s = ''Defense'' then Some StatDefense
      else if s = ''CriticalChance'' then Some StatCriticalChance
      else if s = ''CriticalMultiplier'' then Some StatCriticalMultiplier
      else None)"

datatype ExampleAddr = Addr0 | Addr1 | Addr2

instance ExampleAddr :: finite
proof
  have "(UNIV :: ExampleAddr set) = {Addr0, Addr1, Addr2}"
    using ExampleAddr.exhaust by auto
  then show "finite (UNIV :: ExampleAddr set)" by (metis finite.emptyI finite.insertI)
qed

text \<open>
  \<open>CycleHeap\<close>: T1 and T2 are each other's parent. \<open>FamilyHeap\<close>: a child without mesh
  whose parent lacks a behavior tree and whose grandparent is a valid root with one
  ability. \<open>NamelessHeap\<close>: templates without name, display name and mesh.
\<close>

definition CycleHeap :: "ExampleAddr heap" where
  "CycleHeap a =
     (if a = Addr1 then ExampleTemplate (Name ''T1'') (Some Addr2) (ExampleVisuals True True) (ExampleAI True True) []
      else if a = Addr2 then ExampleTemplate (Name ''T2'') (Some Addr1) (ExampleVisuals True True) (ExampleAI True True) []
      else ExampleTemplate (Name ''Root'') None (ExampleVisuals True True) (ExampleAI True True) [])"

definition FamilyHeap :: "ExampleAddr heap" where
  "FamilyHeap a =
     (if a = Addr1 then ExampleTemplate (Name ''Child'') (Some Addr2) (ExampleVisuals False True) (ExampleAI True True)
                      [ExampleAbility (Name ''BasicAttack'') 200 True]
      else if a = Addr2 then ExampleTemplate (Name ''Parent'') (Some Addr0) (ExampleVisuals True True) (ExampleAI False True) []
      else ExampleTemplate (Name ''Root'') None (ExampleVisuals True False) (ExampleAI True True)
                      [ExampleAbility (Name ''BasicAttack'') 200 True])"

definition NamelessHeap :: "ExampleAddr heap" where
  "NamelessHeap a =
     (ExampleTemplate NAME_None None (ExampleVisuals False False) (ExampleAI False False)
        [ExampleAbility NAME_None 100 False])\<lparr>DisplayName := []\<rparr>"


definition ExampleCharacter :: ACharacter where
  "ExampleCharacter = \<lparr>HasAbilitySystemComponent = True\<rparr>"

text \<open>A character on which \<open>FindComponentByClass\<close> finds no ability system component.\<close>

definition BareCharacter :: ACharacter where
  "BareCharacter = \<lparr>HasAbilitySystemComponent = False\<rparr>"

definition ExampleModification ::
  "(FName, real) TMap \<Rightarrow> (FName, FEnemyAbilityDefinition) TMap \<Rightarrow> FEnemyTemplateModification" where
  "ExampleModification stats abilities =
     \<lparr>StatMultipliers = stats, ModifiedAbilities = abilities,
      AIModifications = ExampleAI True False, VisualModifications = ExampleVisuals True False,
      AdditionalTags = []\<rparr>"

definition ExampleConfiguration ::
  "'a TSoftObjectPtr \<Rightarrow> FEnemyTemplateModification \<Rightarrow> 'a UEnemyConfiguration" where
  "ExampleConfiguration base m = \<lparr>BaseTemplate = base, Modifications = m\<rparr>"

definition DoubleDamage :: FEnemyTemplateModification where
  "DoubleDamage = ExampleModification [(Name ''Damage'', 2)] []"

definition TwoBadEntries :: "ExampleAddr UEnemyConfiguration" where
  "TwoBadEntries =
     ExampleConfiguration (SoftObjectPtr True (Some Addr0))
       (ExampleModification [(Name ''Health'', 0), (Name ''Damage'', -1)] [])"

definition FireballConfiguration :: "ExampleAddr UEnemyConfiguration" where
  "FireballConfiguration =
     ExampleConfiguration (SoftObjectPtr True (Some Addr0))
       (ExampleModification [] [(Name ''Fireball'', ExampleAbility (Name ''Fireball'') 800 True)])"

definition ZeroDamageConfiguration :: "ExampleAddr UEnemyConfiguration" where
  "ZeroDamageConfiguration =
     ExampleConfiguration (SoftObjectPtr True (Some Addr0))
       (ExampleModification [(Name ''Damage'', 0)] [])"

text \<open>A multiplier of 0 on the template of \<open>FamilyHeap\<close> that lacks a behavior tree.\<close>

definition ZeroDamageOnParent :: "ExampleAddr UEnemyConfiguration" where
  "ZeroDamageOnParent =
     ExampleConfiguration (SoftObjectPtr True (Some Addr2))
       (ExampleModification [(Name ''Damage'', 0)] [])"

definition MissingBaseConfiguration :: "ExampleAddr UEnemyConfiguration" where
  "MissingBaseConfiguration =
     ExampleConfiguration (SoftObjectPtr False None)
       (ExampleModification [(Name ''Health'', 0)] [])"

definition UnresolvedBaseConfiguration :: "ExampleAddr UEnemyConfiguration" where
  "UnresolvedBaseConfiguration =
     ExampleConfiguration (SoftObjectPtr True None)
       (ExampleModification [(Name ''Health'', 0)] [])"

lemmas example_defs =
  ExampleAsset_def ExampleVisuals_def ExampleAI_def ExampleStats_def ExampleAbility_def
  ExampleTemplate_def ExampleModification_def ExampleConfiguration_def ExampleCharacter_def

section \<open>Supporting lemmas\<close>

subsection \<open>The validation result\<close>

lemma result_inv_Clear: "result_inv (Clear r)"
  by (simp add: result_inv_def Clear_def)

lemma result_inv_AddError: "result_inv (AddError e r)" and AddError_invalid: "\<not> bIsValid (AddError e r)"
  by (simp_all add: result_inv_def AddError_def)

lemma result_inv_AddWarning: "result_inv r \<Longrightarrow> result_inv (AddWarning w r)"
  by (simp add: result_inv_def AddWarning_def)

lemma ValidateVisualAssets_inv:
  "ValidateVisualAssets t r = (b, r') \<Longrightarrow> result_inv r \<Longrightarrow>
     result_inv r' \<and> (\<not> b \<longrightarrow> \<not> bIsValid r')"
  by (auto simp: ValidateVisualAssets_def result_inv_AddError AddError_invalid result_inv_AddWarning split: if_splits)

lemma ValidateAIConfiguration_inv:
  "ValidateAIConfiguration t r = (b, r') \<Longrightarrow> result_inv r \<Longrightarrow>
     result_inv r' \<and> (\<not> b \<longrightarrow> \<not> bIsValid r')"
  by (auto simp: ValidateAIConfiguration_def result_inv_AddError AddError_invalid split: if_splits)

lemma ValidateAbilities_loop_inv:
  "ValidateAbilities_loop all xs (ok, r) = (b, r') \<Longrightarrow> result_inv r \<Longrightarrow> (\<not> ok \<longrightarrow> \<not> bIsValid r) \<Longrightarrow>
     result_inv r' \<and> (\<not> b \<longrightarrow> \<not> bIsValid r')"
proof (induction xs arbitrary: ok r)
  case Nil
  then show ?case by simp
next
  case (Cons a xs)
  define s1 where "s1 = (if IsNone (AbilityName a)
             then (False, AddError (NoAbilityName (IndexOfByKey all a)) r)
             else (ok, r))"
  define s2 where "s2 = (if \<not> IsValid (AbilityClass a)
             then (False, AddError (NoAbilityClass (AbilityName a)) (snd s1))
             else s1)"
  have i1: "result_inv (snd s1) \<and> (\<not> fst s1 \<longrightarrow> \<not> bIsValid (snd s1))"
    using Cons.prems(2,3) by (simp add: s1_def result_inv_AddError AddError_invalid)
  have i2: "result_inv (snd s2) \<and> (\<not> fst s2 \<longrightarrow> \<not> bIsValid (snd s2))"
    using i1 by (simp add: s2_def result_inv_AddError AddError_invalid)
  have "ValidateAbilities_loop all (a # xs) (ok, r) = ValidateAbilities_loop all xs (fst s2, snd s2)"
    by (simp add: s1_def s2_def Let_def split: if_splits)
  with Cons.prems(1) have "ValidateAbilities_loop all xs (fst s2, snd s2) = (b, r')" by simp
  from Cons.IH[OF this] i2 show ?case by blast
qed

lemma ValidateAbilities_inv:
  "ValidateAbilities t r = (b, r') \<Longrightarrow> result_inv r \<Longrightarrow>
     result_inv r' \<and> (\<not> b \<longrightarrow> \<not> bIsValid r')"
  unfolding ValidateAbilities_def by (rule ValidateAbilities_loop_inv) auto

subsection \<open>ValidateTemplate by stages\<close>

lemma ValidateTemplate_cleared: "ValidateTemplate h t r = ValidateTemplate h t r'"
proof -
  have c: "Clear r = Clear r'" by (simp add: Clear_def)
  show ?thesis
    by (subst ValidateTemplate.simps, subst (2) ValidateTemplate.simps) (simp only: c)
qed

lemma AssetStage_Some:
  "(case ValidateVisualAssets t r4 of
      (False, r5) \<Rightarrow> Some (False, r5)
    | (True, r5) \<Rightarrow>
        (case ValidateAIConfiguration t r5 of
           (False, r6) \<Rightarrow> Some (False, r6)
         | (True, r6) \<Rightarrow>
             (case ValidateAbilities t r6 of
                (False, r7) \<Rightarrow> Some (False, r7)
              | (True, r7) \<Rightarrow> Some (bIsValid r7, r7)))) = Some (AssetStage t r4)"
  by (simp add: AssetStage_def split: prod.splits bool.splits)

lemma ValidateTemplate_stages:
  "ValidateTemplate h t r =
     (case ParentStage h t (IdentityStage (h t)) of
        None \<Rightarrow> None
      | Some r4 \<Rightarrow> Some (AssetStage (h t) r4))"
proof -
  have c: "Clear r = Clear DefaultResult" by (simp add: Clear_def)
  show ?thesis
  proof (cases "ParentTemplate (h t)")
    case None
    show ?thesis
      apply (subst ValidateTemplate.simps)
      apply (simp only: c AssetStage_Some)
      apply (simp add: None ParentStage_def IdentityStage_def Let_def)
      done
  next
    case (Some p)
    show ?thesis
    proof (cases "ValidateTemplate h p DefaultResult")
      case None
      show ?thesis
        apply (subst ValidateTemplate.simps)
        apply (simp only: c AssetStage_Some)
        apply (simp add: Some None ParentStage_def IdentityStage_def Let_def)
        done
    next
      case res: (Some res)
      obtain ok pr where res_eq: "res = (ok, pr)" by (cases res)
      show ?thesis
        apply (subst ValidateTemplate.simps)
        apply (simp only: c AssetStage_Some)
        apply (simp add: Some res res_eq ParentStage_def IdentityStage_def Let_def AddError_def)
        done
    qed
  qed
qed

lemma IdentityStage_inv: "result_inv (IdentityStage t)"
  by (simp add: IdentityStage_def Let_def result_inv_Clear result_inv_AddError result_inv_AddWarning)

lemma ParentStage_inv: "ParentStage h t r2 = Some r4 \<Longrightarrow> result_inv r2 \<Longrightarrow> result_inv r4"
  by (auto simp: ParentStage_def result_inv_def AddError_def split: option.splits if_splits)

lemma AssetStage_inv:
  assumes "AssetStage t r4 = (b, r)" and r4: "result_inv r4"
  shows "b = bIsValid r \<and> result_inv r"
proof -
  obtain b5 r5 where v: "ValidateVisualAssets t r4 = (b5, r5)" by fastforce
  obtain b6 r6 where a: "ValidateAIConfiguration t r5 = (b6, r6)" by fastforce
  obtain b7 r7 where ab: "ValidateAbilities t r6 = (b7, r7)" by fastforce
  note i5 = ValidateVisualAssets_inv[OF v r4]
  note i6 = ValidateAIConfiguration_inv[OF a conjunct1[OF i5]]
  note i7 = ValidateAbilities_inv[OF ab conjunct1[OF i6]]
  show ?thesis
    using assms(1) v a ab i5 i6 i7 by (auto simp: AssetStage_def split: bool.splits)
qed

lemma ValidateTemplate_inv:
  assumes "ValidateTemplate h t r0 = Some (b, r)"
  shows "b = bIsValid r \<and> result_inv r"
proof -
  from assms obtain r4 where p: "ParentStage h t (IdentityStage (h t)) = Some r4"
    and a: "AssetStage (h t) r4 = (b, r)"
    by (auto simp: ValidateTemplate_stages split: option.splits)
  from ParentStage_inv[OF p IdentityStage_inv] have "result_inv r4" .
  from AssetStage_inv[OF a this] show ?thesis .
qed

lemma ValidateTemplate_no_mesh:
  assumes mesh: "\<not> IsValid (SkeletalMesh (VisualCustomization (h t)))"
    and run: "ValidateTemplate h t r0 = Some (b, r)"
  shows "\<not> b" "\<not> bIsValid r"
    "ValidationErrors r = IdentityErrors (h t) @ ParentErrors h t @ [NoSkeletalMesh]"
    "ValidationWarnings r = IdentityWarnings (h t)"
proof -
  from run obtain r4 where p: "ParentStage h t (IdentityStage (h t)) = Some r4"
    and a: "AssetStage (h t) r4 = (b, r)"
    by (auto simp: ValidateTemplate_stages split: option.splits)
  from a mesh have br: "b = False" "r = AddError NoSkeletalMesh r4"
    by (simp_all add: AssetStage_def ValidateVisualAssets_def)
  have ie: "ValidationErrors (IdentityStage (h t)) = IdentityErrors (h t)"
    and iw: "ValidationWarnings (IdentityStage (h t)) = IdentityWarnings (h t)"
    by (simp_all add: IdentityStage_def IdentityErrors_def IdentityWarnings_def Let_def
        Clear_def DefaultResult_def AddError_def AddWarning_def)
  from p have pe: "ValidationErrors r4 = ValidationErrors (IdentityStage (h t)) @ ParentErrors h t"
    and pw: "ValidationWarnings r4 = ValidationWarnings (IdentityStage (h t))"
    by (auto simp: ParentStage_def ParentErrors_def AddError_def split: option.splits if_splits)
  show "\<not> b" using br by simp
  show "\<not> bIsValid r" using br by (simp add: AddError_def)
  show "ValidationErrors r = IdentityErrors (h t) @ ParentErrors h t @ [NoSkeletalMesh]"
    using br pe ie by (simp add: AddError_def)
  show "ValidationWarnings r = IdentityWarnings (h t)"
    using br pw iw by (simp add: AddError_def)
qed

lemma ValidateVisualAssets_with_mesh:
  assumes "IsValid (SkeletalMesh (VisualCustomization T))"
  shows "ValidateVisualAssets T r =
           (True, if IsValid (AnimationBlueprint (VisualCustomization T)) then r
                  else AddWarning NoAnimBP r)"
  using assms by (simp add: ValidateVisualAssets_def)

lemmas validation_defs =
  ValidateTemplate_stages ParentStage_def IdentityStage_def AssetStage_def
  ValidateVisualAssets_def ValidateAIConfiguration_def ValidateAbilities_def
  ValidateConfiguration_def Clear_def DefaultResult_def AddError_def AddWarning_def

subsection \<open>Termination of ValidateTemplate\<close>

lemma ParentStage_None_parent: "ParentTemplate (h t) = None \<Longrightarrow> ParentStage h t r = Some r"
  by (simp add: ParentStage_def)

lemma ParentStage_returns:
  "ParentTemplate (h t) = Some p \<Longrightarrow> ValidateTemplate h p DefaultResult = Some res \<Longrightarrow>
   \<exists>r4. ParentStage h t r = Some r4"
  by (cases res) (simp add: ParentStage_def)

lemma ValidateTemplate_returns:
  "ParentChainEnds h t \<Longrightarrow> \<exists>res. ValidateTemplate h t r = Some res"
proof (induction arbitrary: r rule: ParentChainEnds.induct)
  case (root t)
  then show ?case by (simp add: ValidateTemplate_stages ParentStage_None_parent)
next
  case (child t p)
  from child.IH[of DefaultResult] obtain res where "ValidateTemplate h p DefaultResult = Some res" ..
  from ParentStage_returns[OF child.hyps(1) this]
  obtain r4 where "ParentStage h t (IdentityStage (h t)) = Some r4" ..
  then show ?case by (simp add: ValidateTemplate_stages)
qed

lemma ValidateTemplate_returns_only:
  "ValidateTemplate h t r = Some res \<Longrightarrow> ParentChainEnds h t"
proof (induction rule: ValidateTemplate.raw_induct[rotated 1, consumes 1])
  case (1 VT h t r res)
  show ?case
  proof (cases "ParentTemplate (h t)")
    case None
    then show ?thesis by (rule ParentChainEnds.root)
  next
    case (Some p)
    with 1(2) obtain pres where "VT h p DefaultResult = Some pres"
      by (auto simp: Let_def bind_eq_Some_conv)
    from 1(1)[OF this] Some show ?thesis by (rule ParentChainEnds.child[rotated])
  qed
qed

subsection \<open>ValidateTemplate does not read the cache\<close>

lemma SameTemplateFields_fields:
  assumes "SameTemplateFields h h'"
  shows "TemplateName (h' a) = TemplateName (h a)" "DisplayName (h' a) = DisplayName (h a)"
    "ParentTemplate (h' a) = ParentTemplate (h a)"
    "VisualCustomization (h' a) = VisualCustomization (h a)"
    "AIConfig (h' a) = AIConfig (h a)" "Abilities (h' a) = Abilities (h a)"
proof -
  from assms have e: "h' a = (h a)\<lparr>CachedInheritanceChain := CachedInheritanceChain (h' a),
                        bNeedsInheritanceChainUpdate := bNeedsInheritanceChainUpdate (h' a)\<rparr>"
    unfolding SameTemplateFields_def by blast
  show "TemplateName (h' a) = TemplateName (h a)" by (subst e) simp
  show "DisplayName (h' a) = DisplayName (h a)" by (subst e) simp
  show "ParentTemplate (h' a) = ParentTemplate (h a)" by (subst e) simp
  show "VisualCustomization (h' a) = VisualCustomization (h a)" by (subst e) simp
  show "AIConfig (h' a) = AIConfig (h a)" by (subst e) simp
  show "Abilities (h' a) = Abilities (h a)" by (subst e) simp
qed

lemma SameTemplateFields_sym: "SameTemplateFields h h' \<Longrightarrow> SameTemplateFields h' h"
  unfolding SameTemplateFields_def
proof
  fix a
  assume "\<forall>a. h' a = (h a)\<lparr>CachedInheritanceChain := CachedInheritanceChain (h' a),
                        bNeedsInheritanceChainUpdate := bNeedsInheritanceChainUpdate (h' a)\<rparr>"
  then have e: "h' a = (h a)\<lparr>CachedInheritanceChain := CachedInheritanceChain (h' a),
                        bNeedsInheritanceChainUpdate := bNeedsInheritanceChainUpdate (h' a)\<rparr>" ..
  show "h a = (h' a)\<lparr>CachedInheritanceChain := CachedInheritanceChain (h a),
                        bNeedsInheritanceChainUpdate := bNeedsInheritanceChainUpdate (h a)\<rparr>"
    by (subst e) simp
qed

lemma SameTemplateFields_stages:
  assumes "SameTemplateFields h h'"
  shows "IdentityStage (h' a) = IdentityStage (h a)" "AssetStage (h' a) r = AssetStage (h a) r"
  by (simp_all add: IdentityStage_def AssetStage_def ValidateVisualAssets_def
      ValidateAIConfiguration_def ValidateAbilities_def SameTemplateFields_fields[OF assms])

lemma SameTemplateFields_chain_ends:
  "ParentChainEnds h t \<Longrightarrow> SameTemplateFields h h' \<Longrightarrow> ParentChainEnds h' t"
proof (induction rule: ParentChainEnds.induct)
  case (root t)
  then show ?case by (auto intro: ParentChainEnds.root simp: SameTemplateFields_fields)
next
  case (child t p)
  then show ?case by (auto intro: ParentChainEnds.child simp: SameTemplateFields_fields)
qed

lemma SameTemplateFields_ValidateTemplate_ends:
  "ParentChainEnds h t \<Longrightarrow> SameTemplateFields h h' \<Longrightarrow>
   ValidateTemplate h' t r' = ValidateTemplate h t r"
proof (induction arbitrary: r r' rule: ParentChainEnds.induct)
  case (root t)
  then show ?case
    by (simp add: ValidateTemplate_stages ParentStage_def SameTemplateFields_fields
        SameTemplateFields_stages split: option.splits)
next
  case (child t p)
  from child.IH[OF child.prems, of DefaultResult DefaultResult]
  have "ParentStage h' t x = ParentStage h t x" for x
    using child.hyps(1) child.prems
    by (simp add: ParentStage_def SameTemplateFields_fields split: option.splits)
  with child.prems show ?case
    by (simp add: ValidateTemplate_stages SameTemplateFields_stages split: option.splits)
qed

lemma SameTemplateFields_ValidateTemplate:
  assumes "SameTemplateFields h h'"
  shows "ValidateTemplate h' t r' = ValidateTemplate h t r"
proof (cases "ParentChainEnds h t")
  case True
  then show ?thesis using assms by (rule SameTemplateFields_ValidateTemplate_ends)
next
  case False
  have "ValidateTemplate h t r = None"
  proof (cases "ValidateTemplate h t r")
    case (Some res)
    from ValidateTemplate_returns_only[OF this] False show ?thesis by contradiction
  qed
  moreover have "ValidateTemplate h' t r' = None"
  proof (cases "ValidateTemplate h' t r'")
    case (Some res)
    from ValidateTemplate_returns_only[OF this] have "ParentChainEnds h' t" .
    from SameTemplateFields_chain_ends[OF this SameTemplateFields_sym[OF assms]] False
    show ?thesis by contradiction
  qed
  ultimately show ?thesis by simp
qed

lemma GetInheritanceChain_SameTemplateFields:
  "SameTemplateFields h (snd (GetInheritanceChain h x))"
  by (simp add: SameTemplateFields_def GetInheritanceChain_def Let_def)

subsection \<open>ValidateConfiguration\<close>

lemma ValidateStatMultipliers_loop_inv:
  "ValidateStatMultipliers_loop ms r = (b, r') \<Longrightarrow> result_inv r \<Longrightarrow> bIsValid r \<Longrightarrow>
     b = bIsValid r' \<and> result_inv r'"
  by (induction ms r rule: ValidateStatMultipliers_loop.induct)
     (auto simp: result_inv_AddError AddError_invalid split: if_splits)

lemma ValidateModifiedAbilities_loop_inv:
  "ValidateModifiedAbilities_loop tas ms r = (b, r') \<Longrightarrow> result_inv r \<Longrightarrow> bIsValid r \<Longrightarrow>
     b = bIsValid r' \<and> result_inv r'"
  by (induction tas ms r rule: ValidateModifiedAbilities_loop.induct)
     (auto simp: result_inv_AddError AddError_invalid split: if_splits)

lemma ValidateConfiguration_inv:
  assumes "ValidateConfiguration h cfg r0 = Some (b, r)"
  shows "b = bIsValid r \<and> result_inv r"
proof (cases "IsValid (BaseTemplate cfg)")
  case False
  with assms show ?thesis
    by (auto simp: ValidateConfiguration_def Let_def result_inv_AddError AddError_invalid)
next
  case True
  show ?thesis
  proof (cases "Get (BaseTemplate cfg)")
    case None
    with True assms show ?thesis
      by (auto simp: ValidateConfiguration_def Let_def result_inv_AddError AddError_invalid)
  next
    case (Some T)
    with True assms obtain ok r1 where vt: "ValidateTemplate h T (Clear r0) = Some (ok, r1)"
      and rest: "(if \<not> ok then Some (False, r1)
                        else (case ValidateStatMultipliers_loop
                                     (StatMultipliers (Modifications cfg)) r1 of
                                (False, r2) \<Rightarrow> Some (False, r2)
                              | (True, r2) \<Rightarrow>
                                  (case ValidateModifiedAbilities_loop (Abilities (h T))
                                          (ModifiedAbilities (Modifications cfg)) r2 of
                                     (False, r3) \<Rightarrow> Some (False, r3)
                                   | (True, r3) \<Rightarrow> Some (True, r3)))) = Some (b, r)"
      by (auto simp: ValidateConfiguration_def Let_def bind_eq_Some_conv)
    note i1 = ValidateTemplate_inv[OF vt]
    show ?thesis
    proof (cases ok)
      case False
      with rest i1 show ?thesis by auto
    next
      case True
      obtain b2 r2 where s: "ValidateStatMultipliers_loop (StatMultipliers (Modifications cfg)) r1 = (b2, r2)"
        by fastforce
      from ValidateStatMultipliers_loop_inv[OF s] i1 True
      have i2: "b2 = bIsValid r2 \<and> result_inv r2" by simp
      obtain b3 r3 where m: "ValidateModifiedAbilities_loop (Abilities (h T))
                                          (ModifiedAbilities (Modifications cfg)) r2 = (b3, r3)"
        by fastforce
      show ?thesis
      proof (cases b2)
        case False
        with rest True s i2 show ?thesis by auto
      next
        case b2: True
        from ValidateModifiedAbilities_loop_inv[OF m] i2 b2
        have "b3 = bIsValid r3 \<and> result_inv r3" by simp
        with rest True s b2 m show ?thesis by (auto split: bool.splits)
      qed
    qed
  qed
qed

lemma bAbilityFound_iff: "bAbilityFound abilities k = (k \<in> AbilityName ` set abilities)"
  by (induction abilities) auto

lemma ValidateStatMultipliers_loop_find:
  "ValidateStatMultipliers_loop ms r =
     (case find BadMultiplier ms of
        None \<Rightarrow> (True, r)
      | Some (k, v) \<Rightarrow> (False, AddError (InvalidStatMultiplier v k) r))"
  by (induction ms r rule: ValidateStatMultipliers_loop.induct) simp_all

lemma ValidateModifiedAbilities_loop_find:
  "ValidateModifiedAbilities_loop abilities ms r =
     (case find (BadAbilityKey abilities) ms of
        None \<Rightarrow> (True, r)
      | Some e \<Rightarrow> (False, AddError (AbilityKeyError e) r))"
  by (induction abilities ms r rule: ValidateModifiedAbilities_loop.induct) simp_all

lemma ValidateConfiguration_valid_template:
  assumes "IsValid (BaseTemplate cfg)" and "Get (BaseTemplate cfg) = Some T"
    and "ValidateTemplate h T DefaultResult = Some (True, r1)"
  shows "ValidateConfiguration h cfg r0 =
     Some (case find BadMultiplier (StatMultipliers (Modifications cfg)) of
             Some (k, v) \<Rightarrow> (False, AddError (InvalidStatMultiplier v k) r1)
           | None \<Rightarrow>
               (case find (BadAbilityKey (Abilities (h T))) (ModifiedAbilities (Modifications cfg)) of
                  Some e \<Rightarrow> (False, AddError (AbilityKeyError e) r1)
                | None \<Rightarrow> (True, r1)))"
proof -
  have vt: "ValidateTemplate h T (Clear r0) = Some (True, r1)"
    using assms(3) ValidateTemplate_cleared[of h T "Clear r0" DefaultResult] by simp
  show ?thesis
    by (simp add: ValidateConfiguration_def Let_def assms(1,2) vt
        ValidateStatMultipliers_loop_find ValidateModifiedAbilities_loop_find
        split: option.splits prod.splits)
qed

lemma ValidateConfiguration_bad_multiplier:
  assumes bad: "(k, m) \<in> set (StatMultipliers (Modifications cfg))" "m \<le> 0"
    and run: "ValidateConfiguration h cfg r0 = Some (b, r)"
  shows "\<not> b \<and> ValidationErrors r \<noteq> []"
proof -
  from bad have "\<exists>e. e \<in> set (StatMultipliers (Modifications cfg)) \<and> BadMultiplier e"
    by (intro exI[of _ "(k, m)"]) simp
  then obtain e where f: "find BadMultiplier (StatMultipliers (Modifications cfg)) = Some e"
    by (cases "find BadMultiplier (StatMultipliers (Modifications cfg))")
       (auto simp: find_None_iff)
  obtain k' v' where e: "e = (k', v')" by (cases e)
  have stat: "ValidateStatMultipliers_loop (StatMultipliers (Modifications cfg)) r1
                = (False, AddError (InvalidStatMultiplier v' k') r1)" for r1
    by (simp add: ValidateStatMultipliers_loop_find f e)
  have nb: "\<not> b"
    using run
    by (auto simp: ValidateConfiguration_def Let_def bind_eq_Some_conv stat
        split: if_splits option.splits)
  from ValidateConfiguration_inv[OF run] nb show ?thesis
    unfolding result_inv_def by blast
qed

lemma ValidateConfiguration_returns:
  assumes c: "\<not> IsValid (BaseTemplate cfg) \<or> Get (BaseTemplate cfg) = None \<or>
     (\<exists>T. Get (BaseTemplate cfg) = Some T \<and> ParentChainEnds h T)"
  shows "\<exists>b r. ValidateConfiguration h cfg r0 = Some (b, r)"
proof (cases "\<not> IsValid (BaseTemplate cfg) \<or> Get (BaseTemplate cfg) = None")
  case True
  then show ?thesis by (auto simp: ValidateConfiguration_def Let_def)
next
  case False
  with c obtain T where T: "Get (BaseTemplate cfg) = Some T" "ParentChainEnds h T" by blast
  from ValidateTemplate_returns[OF T(2), of "Clear r0"]
  obtain res where "ValidateTemplate h T (Clear r0) = Some res" ..
  then obtain ok r1 where "ValidateTemplate h T (Clear r0) = Some (ok, r1)" by (cases res) simp
  with False T(1) show ?thesis
    by (auto simp: ValidateConfiguration_def Let_def split: prod.splits bool.splits)
qed

lemma find_Some_holds: "find P xs = Some x \<Longrightarrow> P x"
  by (induction xs) (auto split: if_splits)

lemma find_BadMultiplier_nonpositive:
  "find BadMultiplier ms = Some (k, v) \<Longrightarrow> v \<le> 0 \<and> (k, v) \<in> set ms"
  by (induction ms) (auto split: if_splits)

lemma ValidateConfiguration_invalid_template:
  assumes "IsValid (BaseTemplate cfg)" and "Get (BaseTemplate cfg) = Some T"
    and "ValidateTemplate h T DefaultResult = Some (False, r1)"
  shows "ValidateConfiguration h cfg r0 = Some (False, r1)"
proof -
  have vt: "ValidateTemplate h T (Clear r0) = Some (False, r1)"
    using assms(3) ValidateTemplate_cleared[of h T "Clear r0" DefaultResult] by simp
  show ?thesis
    by (simp add: ValidateConfiguration_def Let_def assms(1,2) vt)
qed

subsection \<open>The loop of GetInheritanceChain\<close>

lemma parent_linked_snoc:
  "parent_linked h (xs @ [x]) \<Longrightarrow> ParentTemplate (h x) = Some y \<Longrightarrow> parent_linked h (xs @ [x, y])"
  by (induction h xs rule: parent_linked.induct) auto

lemma loop_prefix:
  "\<exists>rest. GetInheritanceChain_loop h chain (Some c) = chain @ c # rest"
proof (induction h chain "Some c" arbitrary: c rule: GetInheritanceChain_loop.induct)
  case (2 h chain Current)
  show ?case
  proof (cases "ParentTemplate (h Current)")
    case None
    then show ?thesis by simp
  next
    case (Some p)
    show ?thesis
    proof (cases "p \<in> set (chain @ [Current])")
      case True
      with Some show ?thesis by simp
    next
      case False
      then have nm: "\<not> (case Some p of None \<Rightarrow> False | Some n \<Rightarrow> n \<in> set (chain @ [Current]))"
        by simp
      from 2[OF refl Some[symmetric] nm] obtain rest where
        "GetInheritanceChain_loop h (chain @ [Current]) (Some p) = (chain @ [Current]) @ p # rest"
        by auto
      with Some False show ?thesis by simp
    qed
  qed
qed


lemma loop_linked:
  "parent_linked h (chain @ [c]) \<Longrightarrow> parent_linked h (GetInheritanceChain_loop h chain (Some c))"
proof (induction h chain "Some c" arbitrary: c rule: GetInheritanceChain_loop.induct)
  case (2 h chain Current)
  show ?case
  proof (cases "ParentTemplate (h Current)")
    case None
    with 2(2) show ?thesis by simp
  next
    case (Some p)
    show ?thesis
    proof (cases "p \<in> set (chain @ [Current])")
      case True
      with Some 2(2) show ?thesis by simp
    next
      case False
      then have nm: "\<not> (case Some p of None \<Rightarrow> False | Some n \<Rightarrow> n \<in> set (chain @ [Current]))"
        by simp
      have "parent_linked h ((chain @ [Current]) @ [p])"
        using parent_linked_snoc[OF 2(2) Some] by simp
      then have "parent_linked h (GetInheritanceChain_loop h (chain @ [Current]) (Some p))"
        by (rule 2(1)[OF refl Some[symmetric] nm])
      with Some False show ?thesis by simp
    qed
  qed
qed

lemma loop_end:
  "ParentTemplate (h (last (GetInheritanceChain_loop h chain (Some c)))) = None \<or>
   (\<exists>p. ParentTemplate (h (last (GetInheritanceChain_loop h chain (Some c)))) = Some p \<and>
        p \<in> set (GetInheritanceChain_loop h chain (Some c)))"
proof (induction h chain "Some c" arbitrary: c rule: GetInheritanceChain_loop.induct)
  case (2 h chain Current)
  show ?case
  proof (cases "ParentTemplate (h Current)")
    case None
    then show ?thesis by simp
  next
    case (Some p)
    show ?thesis
    proof (cases "p \<in> set (chain @ [Current])")
      case True
      with Some show ?thesis by simp
    next
      case False
      then have nm: "\<not> (case Some p of None \<Rightarrow> False | Some n \<Rightarrow> n \<in> set (chain @ [Current]))"
        by simp
      from 2(1)[OF refl Some[symmetric] nm] Some False
      show ?thesis by simp
    qed
  qed
qed

lemma loop_subset:
  "set (GetInheritanceChain_loop h chain (Some c)) \<subseteq> set chain \<union> Reachable h c"
proof (induction h chain "Some c" arbitrary: c rule: GetInheritanceChain_loop.induct)
  case (2 h chain Current)
  have self: "Current \<in> Reachable h Current" by (simp add: Reachable_def)
  show ?case
  proof (cases "ParentTemplate (h Current)")
    case None
    with self show ?thesis by simp
  next
    case (Some p)
    show ?thesis
    proof (cases "p \<in> set (chain @ [Current])")
      case True
      with Some self show ?thesis by simp
    next
      case False
      then have nm: "\<not> (case Some p of None \<Rightarrow> False | Some n \<Rightarrow> n \<in> set (chain @ [Current]))"
        by simp
      have "(Current, p) \<in> parent_rel h" using Some by (simp add: parent_rel_def)
      then have "Reachable h p \<subseteq> Reachable h Current"
        by (auto simp: Reachable_def intro: converse_rtrancl_into_rtrancl)
      moreover have "set (GetInheritanceChain_loop h (chain @ [Current]) (Some p))
            \<subseteq> set (chain @ [Current]) \<union> Reachable h p"
        by (rule 2(1)[OF refl Some[symmetric] nm])
      ultimately show ?thesis using Some False self by auto
    qed
  qed
qed


lemma parent_linked_closed:
  "parent_linked h xs \<Longrightarrow> a \<in> set xs \<Longrightarrow> ParentTemplate (h a) = Some p \<Longrightarrow>
   p \<in> set xs \<or> a = last xs"
  by (induction h xs rule: parent_linked.induct) auto

lemma chain_is_Reachable:
  "set (GetInheritanceChain_loop h [] (Some t)) = Reachable h t"
proof
  show "set (GetInheritanceChain_loop h [] (Some t)) \<subseteq> Reachable h t"
    using loop_subset[of h "[]" t] by simp
next
  let ?res = "GetInheritanceChain_loop h [] (Some t)"
  from loop_prefix[of h "[]" t] obtain rest where res: "?res = t # rest" by auto
  have linked: "parent_linked h ?res" by (rule loop_linked) simp
  have closed: "p \<in> set ?res" if "a \<in> set ?res" and "ParentTemplate (h a) = Some p" for a p
    using parent_linked_closed[OF linked that] loop_end[of h "[]" t] that(2) by auto
  show "Reachable h t \<subseteq> set ?res"
  proof
    fix a assume "a \<in> Reachable h t"
    then have "(t, a) \<in> (parent_rel h)\<^sup>*" by (simp add: Reachable_def)
    then show "a \<in> set ?res"
    proof (induction rule: rtrancl_induct)
      case base
      show ?case by (subst res) simp
    next
      case (step y z)
      then show ?case using closed[of y z] by (simp add: parent_rel_def)
    qed
  qed
qed





subsection \<open>Parent chains that end are the acyclic ones\<close>

lemma parent_rel_step: "(a, b) \<in> parent_rel h \<Longrightarrow> ParentTemplate (h a) = Some b"
  by (simp add: parent_rel_def)

lemma parent_rel_succ:
  "(a, b) \<in> (parent_rel h)\<^sup>+ \<Longrightarrow> \<exists>p. ParentTemplate (h a) = Some p \<and> (p, b) \<in> (parent_rel h)\<^sup>*"
  by (auto dest!: tranclD simp: parent_rel_def)

lemma ParentChainEnds_acyclic:
  "ParentChainEnds h t \<Longrightarrow> (t, a) \<in> (parent_rel h)\<^sup>* \<Longrightarrow> (a, a) \<notin> (parent_rel h)\<^sup>+"
proof (induction arbitrary: a rule: ParentChainEnds.induct)
  case (root t)
  from root.prems have "a = t"
    by (cases rule: converse_rtranclE) (auto dest: parent_rel_step simp: root.hyps)
  then show ?case using root.hyps by (auto dest: parent_rel_succ)
next
  case (child t p)
  show ?case
  proof (cases "a = t")
    case True
    show ?thesis
    proof
      assume "(a, a) \<in> (parent_rel h)\<^sup>+"
      with True parent_rel_succ[of t t h] child.hyps(1)
      have pt: "(p, t) \<in> (parent_rel h)\<^sup>*" by auto
      from child.IH[OF pt] True \<open>(a, a) \<in> (parent_rel h)\<^sup>+\<close> show False by simp
    qed
  next
    case False
    with child.prems have "(t, a) \<in> (parent_rel h)\<^sup>+" by (auto dest: rtranclD)
    with parent_rel_succ[of t a h] child.hyps(1) have "(p, a) \<in> (parent_rel h)\<^sup>*" by auto
    then show ?thesis by (rule child.IH)
  qed
qed

lemma parent_linked_ends:
  "parent_linked h xs \<Longrightarrow> xs \<noteq> [] \<Longrightarrow> ParentChainEnds h (last xs) \<Longrightarrow> ParentChainEnds h (hd xs)"
  by (induction h xs rule: parent_linked.induct) (auto intro: ParentChainEnds.child)

lemma parent_linked_reaches_last:
  "parent_linked h xs \<Longrightarrow> x \<in> set xs \<Longrightarrow> (x, last xs) \<in> (parent_rel h)\<^sup>*"
proof (induction h xs arbitrary: x rule: parent_linked.induct)
  case (1 h)
  then show ?case by simp
next
  case (2 h y)
  then show ?case by simp
next
  case (3 h y z zs)
  from 3(2) have yz: "(y, z) \<in> parent_rel h" and linked: "parent_linked h (z # zs)"
    by (simp_all add: parent_rel_def)
  have last_eq: "last (y # z # zs) = last (z # zs)" by simp
  show ?case
  proof (cases "x = y")
    case True
    have "(z, last (z # zs)) \<in> (parent_rel h)\<^sup>*" by (rule 3(1)[OF linked]) simp
    with yz have "(y, last (z # zs)) \<in> (parent_rel h)\<^sup>*"
      by (rule converse_rtrancl_into_rtrancl)
    then show ?thesis unfolding last_eq True .
  next
    case False
    with 3(3) have "x \<in> set (z # zs)" by simp
    from 3(1)[OF linked this] show ?thesis unfolding last_eq .
  qed
qed

lemma acyclic_ParentChainEnds:
  fixes h :: "('a::finite) heap"
  assumes "\<not> CyclicParentChain h t"
  shows "ParentChainEnds h t"
proof -
  let ?res = "GetInheritanceChain_loop h [] (Some t)"
  from loop_prefix[of h "[]" t] obtain rest where res: "?res = t # rest" by auto
  have linked: "parent_linked h ?res" by (rule loop_linked) simp
  have ne: "?res \<noteq> []" and hd: "hd ?res = t" by (simp_all only: res list.sel) simp
  from loop_end[of h "[]" t] show ?thesis
  proof
    assume "ParentTemplate (h (last ?res)) = None"
    then have "ParentChainEnds h (last ?res)" by (rule ParentChainEnds.root)
    from parent_linked_ends[OF linked ne this] hd show ?thesis by simp
  next
    assume "\<exists>p. ParentTemplate (h (last ?res)) = Some p \<and> p \<in> set ?res"
    then obtain p where p: "ParentTemplate (h (last ?res)) = Some p" and mem: "p \<in> set ?res"
      by blast
    from parent_linked_reaches_last[OF linked mem] have "(p, last ?res) \<in> (parent_rel h)\<^sup>*" .
    moreover have "(last ?res, p) \<in> parent_rel h" using p by (simp add: parent_rel_def)
    ultimately have "(p, p) \<in> (parent_rel h)\<^sup>+" by (rule rtrancl_into_trancl1)
    moreover have "(t, p) \<in> (parent_rel h)\<^sup>*"
      using mem chain_is_Reachable[of h t] by (simp add: Reachable_def)
    ultimately have "CyclicParentChain h t" unfolding CyclicParentChain_def by blast
    with assms show ?thesis by contradiction
  qed
qed

lemma ParentChainEnds_iff_acyclic:
  fixes h :: "('a::finite) heap"
  shows "ParentChainEnds h t = (\<not> CyclicParentChain h t)"
  using ParentChainEnds_acyclic[of h t] acyclic_ParentChainEnds[of h t]
  unfolding CyclicParentChain_def by blast

subsection \<open>ApplyToInstance\<close>

lemma StatValue_MultiplyStat:
  "StatValue f (MultiplyStat g m s) =
     (if f = g then FloatProduct (StatValue f s) m else StatValue f s)"
  by (cases f; cases g) simp_all

lemma StatValue_ApplyStatMultipliers:
  "StatValue f (ApplyStatMultipliers resolve ms s) =
     foldl FloatProduct (StatValue f s) (map snd (filter (\<lambda>(k, m). resolve k = Some f) ms))"
proof (induction ms arbitrary: s)
  case Nil
  show ?case by simp
next
  case (Cons e ms)
  obtain k m where e: "e = (k, m)" by (cases e)
  show ?case
    by (cases "resolve k") (simp_all add: e Cons.IH StatValue_MultiplyStat)
qed

lemma ApplyStatMultipliers_unknown_ignored:
  "ApplyStatMultipliers resolve (filter (\<lambda>(k, m). resolve k \<noteq> None) ms) s =
   ApplyStatMultipliers resolve ms s"
proof (induction ms arbitrary: s)
  case Nil
  show ?case by simp
next
  case (Cons e ms)
  obtain k m where e: "e = (k, m)" by (cases e)
  show ?case
    using Cons.IH by (cases "resolve k") (simp_all add: e)
qed

lemma ApplyAbility_filter:
  "ApplyAbility True Ability granted =
     granted @ filter (\<lambda>a. IsValid (AbilityClass a)) [Ability]"
  by (simp add: ApplyAbility_def)

lemma ApplyAbilities_loop_map:
  "ApplyAbilities_loop Modification abilities (applied, granted) =
     (applied @ map (EffectiveAbility Modification) abilities,
      granted @ filter (\<lambda>a. IsValid (AbilityClass a))
                  (map (EffectiveAbility Modification) abilities))"
proof (induction abilities arbitrary: applied granted)
  case Nil
  show ?case by simp
next
  case (Cons a abilities)
  show ?case
    by (simp add: Cons.IH EffectiveAbility_def ApplyAbility_def split: option.splits)
qed

lemma map_of_filter_keys:
  "map_of (filter (\<lambda>(k, v). P k) m) k = (if P k then map_of m k else None)"
  by (induction m) auto

lemma EffectiveAbility_matching_only:
  assumes "Ability \<in> set abilities"
  shows "EffectiveAbility
           (Some (M\<lparr>ModifiedAbilities :=
                      filter (\<lambda>(k, d). k \<in> AbilityName ` set abilities) (ModifiedAbilities M)\<rparr>))
           Ability
         = EffectiveAbility (Some M) Ability"
  using assms by (simp add: EffectiveAbility_def map_of_filter_keys)

subsection \<open>The example objects\<close>

lemma family_root:
  "ValidateTemplate FamilyHeap Addr0 r =
     Some (True, \<lparr>bIsValid = True, ValidationErrors = [], ValidationWarnings = [NoAnimBP]\<rparr>)"
  by (simp add: validation_defs example_defs FamilyHeap_def)

lemma family_parent:
  "ValidateTemplate FamilyHeap Addr2 r =
     Some (False, \<lparr>bIsValid = False, ValidationErrors = [NoBehaviorTree], ValidationWarnings = []\<rparr>)"
  by (simp add: validation_defs example_defs FamilyHeap_def)

lemma family_child:
  "ValidateTemplate FamilyHeap Addr1 r =
     Some (False, \<lparr>bIsValid = False,
                   ValidationErrors = [InvalidParentTemplate (Name ''Parent''), NoBehaviorTree, NoSkeletalMesh],
                   ValidationWarnings = []\<rparr>)"
  by (simp add: validation_defs example_defs FamilyHeap_def)

lemma family_chain_ends:
  "ParentChainEnds FamilyHeap Addr0" "ParentChainEnds FamilyHeap Addr2" "ParentChainEnds FamilyHeap Addr1"
proof -
  show 0: "ParentChainEnds FamilyHeap Addr0"
    by (rule ParentChainEnds.root) (simp add: FamilyHeap_def ExampleTemplate_def)
  show 2: "ParentChainEnds FamilyHeap Addr2"
    by (rule ParentChainEnds.child[OF _ 0]) (simp add: FamilyHeap_def ExampleTemplate_def)
  show "ParentChainEnds FamilyHeap Addr1"
    by (rule ParentChainEnds.child[OF _ 2]) (simp add: FamilyHeap_def ExampleTemplate_def)
qed

lemma nameless_chain_ends: "ParentChainEnds NamelessHeap a"
  by (rule ParentChainEnds.root) (simp add: NamelessHeap_def ExampleTemplate_def)

lemma cycle_is_cyclic: "CyclicParentChain CycleHeap Addr1"
proof -
  have a: "(Addr1, Addr2) \<in> parent_rel CycleHeap" and b: "(Addr2, Addr1) \<in> parent_rel CycleHeap"
    by (simp_all add: parent_rel_def CycleHeap_def ExampleTemplate_def)
  from a b have "(Addr1, Addr1) \<in> (parent_rel CycleHeap)\<^sup>+" by (rule trancl_into_trancl[OF r_into_trancl])
  then show ?thesis unfolding CyclicParentChain_def by blast
qed

section \<open>The claims\<close>

subsection \<open>C1: ValidateConfiguration and several bad entries\<close>

text \<open>
  C1 states that \<open>ValidateConfiguration\<close>, on a configuration whose base template
  passes \<open>ValidateTemplate\<close>, examines every stat multiplier and every modified-ability
  key and records one error per bad entry. Both loops of the function return at the
  first bad entry. On the configuration below the base template is valid, two
  multipliers are not positive, and the result holds a single error, for the first of
  them.
\<close>

theorem ValidateConfiguration_one_error_per_entry_counterexample:
  "ValidateTemplate FamilyHeap Addr0 DefaultResult =
     Some (True, \<lparr>bIsValid = True, ValidationErrors = [], ValidationWarnings = [NoAnimBP]\<rparr>) \<and>
   filter BadMultiplier (StatMultipliers (Modifications TwoBadEntries)) =
     [(Name ''Health'', 0), (Name ''Damage'', -1)] \<and>
   ValidateConfiguration FamilyHeap TwoBadEntries DefaultResult =
     Some (False, \<lparr>bIsValid = False,
                   ValidationErrors = [InvalidStatMultiplier 0 (Name ''Health'')],
                   ValidationWarnings = [NoAnimBP]\<rparr>)"
  by (simp add: validation_defs example_defs FamilyHeap_def TwoBadEntries_def)

text \<open>
  C1 as amended: for every configuration whose base template passes
  \<open>ValidateTemplate\<close> with result \<open>r1\<close> (which then has no errors),
  \<open>ValidateConfiguration\<close> returns at the first failure. If some stat multiplier is
  \<open>\<le> 0\<close>, the result is invalid and its only error names the value and the key of the
  first such entry in iteration order. Otherwise, if some modified-ability key is
  \<open>None\<close> or matches no ability name of the base template, the result is invalid and its
  only error is the one for the first such key. Otherwise the result is valid and is
  \<open>r1\<close> unchanged. The warnings are those of the template in every case.
\<close>

theorem ValidateConfiguration_stops_at_first_failure:
  assumes "IsValid (BaseTemplate cfg)" and "Get (BaseTemplate cfg) = Some T"
    and "ValidateTemplate h T DefaultResult = Some (True, r1)"
  shows "ValidationErrors r1 = [] \<and>
         (\<forall>k d. BadAbilityKey (Abilities (h T)) (k, d) =
                  (IsNone k \<or> k \<notin> AbilityName ` set (Abilities (h T)))) \<and>
         ValidateConfiguration h cfg r0 =
           Some (case find BadMultiplier (StatMultipliers (Modifications cfg)) of
                   Some (k, v) \<Rightarrow>
                     (False, r1\<lparr>bIsValid := False,
                                ValidationErrors := [InvalidStatMultiplier v k]\<rparr>)
                 | None \<Rightarrow>
                     (case find (BadAbilityKey (Abilities (h T)))
                             (ModifiedAbilities (Modifications cfg)) of
                        Some e \<Rightarrow>
                          (False, r1\<lparr>bIsValid := False,
                                     ValidationErrors := [AbilityKeyError e]\<rparr>)
                      | None \<Rightarrow> (True, r1)))"
proof -
  from ValidateTemplate_inv[OF assms(3)] have e1: "ValidationErrors r1 = []"
    unfolding result_inv_def by blast
  show ?thesis
    unfolding ValidateConfiguration_valid_template[OF assms]
    by (simp add: e1 AddError_def bAbilityFound_iff split: option.splits prod.splits)
qed

theorem ValidateConfiguration_stops_at_first_failure_witness:
  "IsValid (BaseTemplate FireballConfiguration) \<and>
   Get (BaseTemplate FireballConfiguration) = Some Addr0 \<and>
   ValidateTemplate FamilyHeap Addr0 DefaultResult =
     Some (True, \<lparr>bIsValid = True, ValidationErrors = [], ValidationWarnings = [NoAnimBP]\<rparr>) \<and>
   ValidateConfiguration FamilyHeap FireballConfiguration DefaultResult =
     Some (False, \<lparr>bIsValid = False,
                   ValidationErrors = [UnknownAbilityModification (Name ''Fireball'')],
                   ValidationWarnings = [NoAnimBP]\<rparr>)"
proof -
  have a: "IsValid (BaseTemplate FireballConfiguration)"
    and b: "Get (BaseTemplate FireballConfiguration) = Some Addr0"
    by (simp_all add: example_defs FamilyHeap_def FireballConfiguration_def)
  have c: "ValidateTemplate FamilyHeap Addr0 DefaultResult =
     Some (True, \<lparr>bIsValid = True, ValidationErrors = [], ValidationWarnings = [NoAnimBP]\<rparr>)"
    by (rule family_root)
  have f: "find BadMultiplier (StatMultipliers (Modifications FireballConfiguration)) = None"
    by (simp add: example_defs FamilyHeap_def FireballConfiguration_def)
  have g: "find (BadAbilityKey (Abilities (FamilyHeap Addr0)))
             (ModifiedAbilities (Modifications FireballConfiguration))
           = Some (Name ''Fireball'', ExampleAbility (Name ''Fireball'') 800 True)"
    by (simp add: example_defs FamilyHeap_def FireballConfiguration_def)
  from ValidateConfiguration_stops_at_first_failure[OF a b c, of DefaultResult] a b c show ?thesis
    unfolding f g by simp
qed

subsection \<open>C2: effective stats\<close>

text \<open>
  C2 states how \<open>ApplyToInstance\<close> computes the final stats and that a multiplier of 0
  or below is not clamped but flagged by validation. \<open>ValidateConfiguration\<close> reports a
  multiplier only when it gets to it: the base template is validated first, and the loop
  over the multipliers returns at the first one that is not positive. On the first
  configuration below the base template lacks a behavior tree and the only multiplier is
  0; the only error of the result is the template's. On the second the base template is
  valid and the multipliers are 0 for Health and -1 for Damage; the only error of the
  result is the one for Health.
\<close>

theorem ValidateConfiguration_multiplier_not_reported_counterexample:
  "StatMultipliers (Modifications ZeroDamageOnParent) = [(Name ''Damage'', 0)] \<and>
   ValidateConfiguration FamilyHeap ZeroDamageOnParent DefaultResult =
     Some (False, \<lparr>bIsValid = False, ValidationErrors = [NoBehaviorTree],
                   ValidationWarnings = []\<rparr>) \<and>
   NoBehaviorTree \<noteq> InvalidStatMultiplier 0 (Name ''Damage'') \<and>
   StatMultipliers (Modifications TwoBadEntries) = [(Name ''Health'', 0), (Name ''Damage'', -1)] \<and>
   ValidateConfiguration FamilyHeap TwoBadEntries DefaultResult =
     Some (False, \<lparr>bIsValid = False,
                   ValidationErrors = [InvalidStatMultiplier 0 (Name ''Health'')],
                   ValidationWarnings = [NoAnimBP]\<rparr>) \<and>
   InvalidStatMultiplier 0 (Name ''Health'') \<noteq> InvalidStatMultiplier (-1) (Name ''Damage'')"
  by (simp add: validation_defs example_defs FamilyHeap_def ZeroDamageOnParent_def
      TwoBadEntries_def NoBehaviorTree_def InvalidStatMultiplier_def)

text \<open>
  C2 as amended: for every template, every supplied modification and every non-null
  instance, \<open>ApplyToInstance\<close> returns normally and each field of the final stats is the
  base value multiplied, in iteration order, by the multipliers of the entries whose key
  resolves to that field. A field no entry resolves to keeps its base value, a field
  exactly one entry resolves to is the float product of the base value and that
  multiplier, whatever its sign, and entries whose key resolves to no field can be
  deleted without changing the result. With health 100, damage 20 and the one entry
  (Damage, 2) the final health is the stored 100 and the final damage the float product
  of 20 and 2, which is 40 under every reading of floats that multiplies 20 by 2 to 40.
  A configuration whose modification holds a multiplier \<open>\<le> 0\<close> never validates:
  \<open>ValidateConfiguration\<close> returns false with an error whenever it returns, and it
  returns when the base template is missing or its parent chain ends. When the base
  template passes \<open>ValidateTemplate\<close>, the only error of the result names the first
  multiplier \<open>\<le> 0\<close> in iteration order; when the base template fails, the result is
  the template's and names no multiplier.
\<close>

theorem ApplyToInstance_effective_stats:
  "\<exists>eff. ApplyToInstance resolve this (Some Instance) (Some M) = Some eff \<and>
     (\<forall>f. StatValue f (FinalStats eff) =
            foldl FloatProduct (StatValue f (BaseStats this))
              (map snd (filter (\<lambda>(k, m). resolve k = Some f) (StatMultipliers M)))) \<and>
     (\<forall>f. (\<forall>(k, m) \<in> set (StatMultipliers M). resolve k \<noteq> Some f) \<longrightarrow>
            StatValue f (FinalStats eff) = StatValue f (BaseStats this)) \<and>
     (\<forall>f k m. filter (\<lambda>(k, m). resolve k = Some f) (StatMultipliers M) = [(k, m)] \<longrightarrow>
            StatValue f (FinalStats eff) = FloatProduct (StatValue f (BaseStats this)) m) \<and>
     FinalStats eff =
       ApplyStatMultipliers resolve
         (filter (\<lambda>(k, m). resolve k \<noteq> None) (StatMultipliers M)) (BaseStats this) \<and>
     (resolve (Name ''Damage'') = Some StatDamage \<and>
      Health (BaseStats this) = FloatValue 100 \<and> Damage (BaseStats this) = FloatValue 20 \<and>
      StatMultipliers M = [(Name ''Damage'', 2)] \<longrightarrow>
        Health (FinalStats eff) = FloatValue 100 \<and>
        Damage (FinalStats eff) = FloatProduct (FloatValue 20) 2 \<and>
        (\<forall>lit mul. mul (lit 20) (lit 2) = lit 40 \<longrightarrow>
           FloatResult lit mul (Health (FinalStats eff)) = lit 100 \<and>
           FloatResult lit mul (Damage (FinalStats eff)) = lit 40)) \<and>
     (\<forall>(h :: 'b heap) cfg r0 k v.
        Modifications cfg = M \<and> find BadMultiplier (StatMultipliers M) = Some (k, v) \<longrightarrow>
          v \<le> 0 \<and>
          (\<forall>b r. ValidateConfiguration h cfg r0 = Some (b, r) \<longrightarrow>
                 \<not> b \<and> ValidationErrors r \<noteq> []) \<and>
          (\<not> IsValid (BaseTemplate cfg) \<or> Get (BaseTemplate cfg) = None \<or>
           (\<exists>T. Get (BaseTemplate cfg) = Some T \<and> ParentChainEnds h T) \<longrightarrow>
             (\<exists>r. ValidateConfiguration h cfg r0 = Some (False, r) \<and>
                  ValidationErrors r \<noteq> [])) \<and>
          (\<forall>T r1. IsValid (BaseTemplate cfg) \<and> Get (BaseTemplate cfg) = Some T \<and>
                  ValidateTemplate h T DefaultResult = Some (True, r1) \<longrightarrow>
             ValidateConfiguration h cfg r0 =
               Some (False, r1\<lparr>bIsValid := False,
                               ValidationErrors := [InvalidStatMultiplier v k]\<rparr>)) \<and>
          (\<forall>T r1. IsValid (BaseTemplate cfg) \<and> Get (BaseTemplate cfg) = Some T \<and>
                  ValidateTemplate h T DefaultResult = Some (False, r1) \<longrightarrow>
             ValidateConfiguration h cfg r0 = Some (False, r1)))"
proof -
  define eff where "eff = \<lparr>FinalStats = ApplyStatMultipliers resolve (StatMultipliers M) (BaseStats this),
     FinalVisuals = VisualModifications M, FinalAIConfig = AIModifications M,
     AppliedAbilities = fst (if HasAbilitySystemComponent Instance
                   then ApplyAbilities_loop (Some M) (Abilities this) ([], []) else ([], [])),
     GrantedAbilities = snd (if HasAbilitySystemComponent Instance
                   then ApplyAbilities_loop (Some M) (Abilities this) ([], []) else ([], []))\<rparr>"
  have run: "ApplyToInstance resolve this (Some Instance) (Some M) = Some eff"
    by (simp add: ApplyToInstance_def eff_def Let_def)
  have fs: "FinalStats eff = ApplyStatMultipliers resolve (StatMultipliers M) (BaseStats this)"
    by (simp add: eff_def)
  have prod: "StatValue f (FinalStats eff) =
            foldl FloatProduct (StatValue f (BaseStats this))
              (map snd (filter (\<lambda>(k, m). resolve k = Some f) (StatMultipliers M)))" for f
    unfolding fs by (rule StatValue_ApplyStatMultipliers)
  have none: "StatValue f (FinalStats eff) = StatValue f (BaseStats this)"
    if "\<forall>(k, m) \<in> set (StatMultipliers M). resolve k \<noteq> Some f" for f
  proof -
    from that have "filter (\<lambda>(k, m). resolve k = Some f) (StatMultipliers M) = []"
      by (auto simp: filter_empty_conv)
    with prod[of f] show ?thesis by simp
  qed
  have one: "StatValue f (FinalStats eff) = FloatProduct (StatValue f (BaseStats this)) m"
    if "filter (\<lambda>(k, m). resolve k = Some f) (StatMultipliers M) = [(k, m)]" for f k m
    using prod[of f] that by simp
  have unknown: "FinalStats eff =
       ApplyStatMultipliers resolve
         (filter (\<lambda>(k, m). resolve k \<noteq> None) (StatMultipliers M)) (BaseStats this)"
    unfolding fs by (rule ApplyStatMultipliers_unknown_ignored[symmetric])
  have example: "Health (FinalStats eff) = FloatValue 100 \<and>
        Damage (FinalStats eff) = FloatProduct (FloatValue 20) 2 \<and>
        (\<forall>lit mul. mul (lit 20) (lit 2) = lit 40 \<longrightarrow>
           FloatResult lit mul (Health (FinalStats eff)) = lit 100 \<and>
           FloatResult lit mul (Damage (FinalStats eff)) = lit 40)"
    if "resolve (Name ''Damage'') = Some StatDamage" "Health (BaseStats this) = FloatValue 100"
      "Damage (BaseStats this) = FloatValue 20" "StatMultipliers M = [(Name ''Damage'', 2)]"
    unfolding fs using that by simp
  have flagged: "v \<le> 0 \<and>
          (\<forall>b r. ValidateConfiguration h cfg r0 = Some (b, r) \<longrightarrow>
                 \<not> b \<and> ValidationErrors r \<noteq> []) \<and>
          (\<not> IsValid (BaseTemplate cfg) \<or> Get (BaseTemplate cfg) = None \<or>
           (\<exists>T. Get (BaseTemplate cfg) = Some T \<and> ParentChainEnds h T) \<longrightarrow>
             (\<exists>r. ValidateConfiguration h cfg r0 = Some (False, r) \<and>
                  ValidationErrors r \<noteq> [])) \<and>
          (\<forall>T r1. IsValid (BaseTemplate cfg) \<and> Get (BaseTemplate cfg) = Some T \<and>
                  ValidateTemplate h T DefaultResult = Some (True, r1) \<longrightarrow>
             ValidateConfiguration h cfg r0 =
               Some (False, r1\<lparr>bIsValid := False,
                               ValidationErrors := [InvalidStatMultiplier v k]\<rparr>)) \<and>
          (\<forall>T r1. IsValid (BaseTemplate cfg) \<and> Get (BaseTemplate cfg) = Some T \<and>
                  ValidateTemplate h T DefaultResult = Some (False, r1) \<longrightarrow>
             ValidateConfiguration h cfg r0 = Some (False, r1))"
    if m: "Modifications cfg = M" and f: "find BadMultiplier (StatMultipliers M) = Some (k, v)"
    for h :: "'b heap" and cfg r0 k v
  proof -
    from find_BadMultiplier_nonpositive[OF f] have v: "v \<le> 0"
      and mem: "(k, v) \<in> set (StatMultipliers (Modifications cfg))" by (simp_all add: m)
    have part: "\<not> b \<and> ValidationErrors r \<noteq> []"
      if "ValidateConfiguration h cfg r0 = Some (b, r)" for b r
      using ValidateConfiguration_bad_multiplier[OF mem v that] .
    have total: "\<exists>r. ValidateConfiguration h cfg r0 = Some (False, r) \<and> ValidationErrors r \<noteq> []"
      if "\<not> IsValid (BaseTemplate cfg) \<or> Get (BaseTemplate cfg) = None \<or>
           (\<exists>T. Get (BaseTemplate cfg) = Some T \<and> ParentChainEnds h T)"
    proof -
      from ValidateConfiguration_returns[OF that, of r0]
      obtain b r where run: "ValidateConfiguration h cfg r0 = Some (b, r)" by blast
      with part[OF run] show ?thesis by auto
    qed
    have exact: "ValidateConfiguration h cfg r0 =
               Some (False, r1\<lparr>bIsValid := False,
                               ValidationErrors := [InvalidStatMultiplier v k]\<rparr>)"
      if "IsValid (BaseTemplate cfg) \<and> Get (BaseTemplate cfg) = Some T \<and>
                  ValidateTemplate h T DefaultResult = Some (True, r1)" for T r1
    proof -
      from that have a: "IsValid (BaseTemplate cfg)" and b: "Get (BaseTemplate cfg) = Some T"
        and c: "ValidateTemplate h T DefaultResult = Some (True, r1)" by simp_all
      from ValidateTemplate_inv[OF c] have e1: "ValidationErrors r1 = []"
        unfolding result_inv_def by blast
      show ?thesis
        unfolding ValidateConfiguration_valid_template[OF a b c]
        by (simp add: m f e1 AddError_def)
    qed
    have rejected: "ValidateConfiguration h cfg r0 = Some (False, r1)"
      if "IsValid (BaseTemplate cfg) \<and> Get (BaseTemplate cfg) = Some T \<and>
                  ValidateTemplate h T DefaultResult = Some (False, r1)" for T r1
    proof -
      from that have a: "IsValid (BaseTemplate cfg)" and b: "Get (BaseTemplate cfg) = Some T"
        and c: "ValidateTemplate h T DefaultResult = Some (False, r1)" by simp_all
      show ?thesis by (rule ValidateConfiguration_invalid_template[OF a b c])
    qed
    from v part total exact rejected show ?thesis by blast
  qed
  show ?thesis
  proof (rule exI[of _ eff], intro conjI)
    show "ApplyToInstance resolve this (Some Instance) (Some M) = Some eff" by (rule run)
    show "\<forall>f. StatValue f (FinalStats eff) =
            foldl FloatProduct (StatValue f (BaseStats this))
              (map snd (filter (\<lambda>(k, m). resolve k = Some f) (StatMultipliers M)))"
      by (intro allI, rule prod)
    show "\<forall>f. (\<forall>(k, m) \<in> set (StatMultipliers M). resolve k \<noteq> Some f) \<longrightarrow>
            StatValue f (FinalStats eff) = StatValue f (BaseStats this)"
      by (intro allI impI, rule none)
    show "\<forall>f k m. filter (\<lambda>(k, m). resolve k = Some f) (StatMultipliers M) = [(k, m)] \<longrightarrow>
            StatValue f (FinalStats eff) = FloatProduct (StatValue f (BaseStats this)) m"
      by (intro allI impI, rule one)
    show "FinalStats eff =
       ApplyStatMultipliers resolve
         (filter (\<lambda>(k, m). resolve k \<noteq> None) (StatMultipliers M)) (BaseStats this)"
      by (rule unknown)
    show "resolve (Name ''Damage'') = Some StatDamage \<and>
      Health (BaseStats this) = FloatValue 100 \<and> Damage (BaseStats this) = FloatValue 20 \<and>
      StatMultipliers M = [(Name ''Damage'', 2)] \<longrightarrow>
        Health (FinalStats eff) = FloatValue 100 \<and>
        Damage (FinalStats eff) = FloatProduct (FloatValue 20) 2 \<and>
        (\<forall>lit mul. mul (lit 20) (lit 2) = lit 40 \<longrightarrow>
           FloatResult lit mul (Health (FinalStats eff)) = lit 100 \<and>
           FloatResult lit mul (Damage (FinalStats eff)) = lit 40)"
      by (intro impI, elim conjE, rule example)
    show "\<forall>(h :: 'b heap) cfg r0 k v.
        Modifications cfg = M \<and> find BadMultiplier (StatMultipliers M) = Some (k, v) \<longrightarrow>
          v \<le> 0 \<and>
          (\<forall>b r. ValidateConfiguration h cfg r0 = Some (b, r) \<longrightarrow>
                 \<not> b \<and> ValidationErrors r \<noteq> []) \<and>
          (\<not> IsValid (BaseTemplate cfg) \<or> Get (BaseTemplate cfg) = None \<or>
           (\<exists>T. Get (BaseTemplate cfg) = Some T \<and> ParentChainEnds h T) \<longrightarrow>
             (\<exists>r. ValidateConfiguration h cfg r0 = Some (False, r) \<and>
                  ValidationErrors r \<noteq> [])) \<and>
          (\<forall>T r1. IsValid (BaseTemplate cfg) \<and> Get (BaseTemplate cfg) = Some T \<and>
                  ValidateTemplate h T DefaultResult = Some (True, r1) \<longrightarrow>
             ValidateConfiguration h cfg r0 =
               Some (False, r1\<lparr>bIsValid := False,
                               ValidationErrors := [InvalidStatMultiplier v k]\<rparr>)) \<and>
          (\<forall>T r1. IsValid (BaseTemplate cfg) \<and> Get (BaseTemplate cfg) = Some T \<and>
                  ValidateTemplate h T DefaultResult = Some (False, r1) \<longrightarrow>
             ValidateConfiguration h cfg r0 = Some (False, r1))"
      by (intro allI impI, elim conjE, rule flagged)
  qed
qed

theorem ApplyToInstance_effective_stats_witness:
  "(\<exists>eff. ApplyToInstance FieldNameLookup (FamilyHeap Addr0) (Some ExampleCharacter)
            (Some DoubleDamage) = Some eff \<and>
          Health (FinalStats eff) = FloatValue 100 \<and>
          Damage (FinalStats eff) = FloatProduct (FloatValue 20) 2 \<and>
          Speed (FinalStats eff) = FloatValue 300 \<and>
          FloatResult (\<lambda>x. x) (\<lambda>x y. x * y) (Health (FinalStats eff)) = 100 \<and>
          FloatResult (\<lambda>x. x) (\<lambda>x y. x * y) (Damage (FinalStats eff)) = 40) \<and>
   (\<exists>eff. ApplyToInstance FieldNameLookup (FamilyHeap Addr0) (Some ExampleCharacter)
            (Some (Modifications ZeroDamageConfiguration)) = Some eff \<and>
          Damage (FinalStats eff) = FloatProduct (FloatValue 20) 0) \<and>
   ValidateConfiguration FamilyHeap ZeroDamageConfiguration DefaultResult =
     Some (False, \<lparr>bIsValid = False,
                   ValidationErrors = [InvalidStatMultiplier 0 (Name ''Damage'')],
                   ValidationWarnings = [NoAnimBP]\<rparr>)"
proof -
  have base: "Health (BaseStats (FamilyHeap Addr0)) = FloatValue 100"
    "Damage (BaseStats (FamilyHeap Addr0)) = FloatValue 20"
    "Speed (BaseStats (FamilyHeap Addr0)) = FloatValue 300"
    by (simp_all add: example_defs FamilyHeap_def)
  have m1: "StatMultipliers DoubleDamage = [(Name ''Damage'', 2)]"
    by (simp add: example_defs DoubleDamage_def)
  have m2: "StatMultipliers (Modifications ZeroDamageConfiguration) = [(Name ''Damage'', 0)]"
    by (simp add: example_defs ZeroDamageConfiguration_def)
  have b2: "IsValid (BaseTemplate ZeroDamageConfiguration)"
    "Get (BaseTemplate ZeroDamageConfiguration) = Some Addr0"
    by (simp_all add: example_defs ZeroDamageConfiguration_def)
  have f2: "find BadMultiplier (StatMultipliers (Modifications ZeroDamageConfiguration)) =
              Some (Name ''Damage'', 0)"
    by (simp add: m2)
  from ApplyToInstance_effective_stats
         [of FieldNameLookup "FamilyHeap Addr0" ExampleCharacter DoubleDamage]
  obtain eff1 where e1:
    "ApplyToInstance FieldNameLookup (FamilyHeap Addr0) (Some ExampleCharacter) (Some DoubleDamage) = Some eff1"
    and none1: "\<forall>f. (\<forall>(k, m) \<in> set (StatMultipliers DoubleDamage). FieldNameLookup k \<noteq> Some f) \<longrightarrow>
            StatValue f (FinalStats eff1) = StatValue f (BaseStats (FamilyHeap Addr0))"
    and ex1: "FieldNameLookup (Name ''Damage'') = Some StatDamage \<and>
      Health (BaseStats (FamilyHeap Addr0)) = FloatValue 100 \<and>
      Damage (BaseStats (FamilyHeap Addr0)) = FloatValue 20 \<and>
      StatMultipliers DoubleDamage = [(Name ''Damage'', 2)] \<longrightarrow>
        Health (FinalStats eff1) = FloatValue 100 \<and>
        Damage (FinalStats eff1) = FloatProduct (FloatValue 20) 2 \<and>
        (\<forall>lit mul. mul (lit 20) (lit 2) = lit 40 \<longrightarrow>
           FloatResult lit mul (Health (FinalStats eff1)) = lit 100 \<and>
           FloatResult lit mul (Damage (FinalStats eff1)) = lit 40)"
    by (elim exE conjE) (rule that; assumption)
  from ex1 base m1 have hd1: "Health (FinalStats eff1) = FloatValue 100"
    "Damage (FinalStats eff1) = FloatProduct (FloatValue 20) 2"
    and rd1: "\<forall>lit mul. mul (lit 20) (lit 2) = lit 40 \<longrightarrow>
           FloatResult lit mul (Health (FinalStats eff1)) = lit (100 :: real) \<and>
           FloatResult lit mul (Damage (FinalStats eff1)) = lit 40"
    by simp_all
  from rd1 have fr1: "FloatResult (\<lambda>x. x) (\<lambda>x y. x * y) (Health (FinalStats eff1)) = (100 :: real)"
    "FloatResult (\<lambda>x. x) (\<lambda>x y. x * y) (Damage (FinalStats eff1)) = (40 :: real)"
    by (simp_all add: hd1)
  from spec[OF none1, of StatSpeed]
  have "StatValue StatSpeed (FinalStats eff1) = StatValue StatSpeed (BaseStats (FamilyHeap Addr0))"
    by (simp add: m1)
  then have sp1: "Speed (FinalStats eff1) = FloatValue 300" by (simp add: base)
  from ApplyToInstance_effective_stats
         [of FieldNameLookup "FamilyHeap Addr0" ExampleCharacter "Modifications ZeroDamageConfiguration"]
  obtain eff2 where e2:
    "ApplyToInstance FieldNameLookup (FamilyHeap Addr0) (Some ExampleCharacter)
       (Some (Modifications ZeroDamageConfiguration)) = Some eff2"
    and one2: "\<forall>f k m. filter (\<lambda>(k, m). FieldNameLookup k = Some f)
                 (StatMultipliers (Modifications ZeroDamageConfiguration)) = [(k, m)] \<longrightarrow>
            StatValue f (FinalStats eff2) = FloatProduct (StatValue f (BaseStats (FamilyHeap Addr0))) m"
    and val2: "\<forall>(h :: ExampleAddr heap) cfg r0 k v.
        Modifications cfg = Modifications ZeroDamageConfiguration \<and>
        find BadMultiplier (StatMultipliers (Modifications ZeroDamageConfiguration)) = Some (k, v) \<longrightarrow>
          v \<le> 0 \<and>
          (\<forall>b r. ValidateConfiguration h cfg r0 = Some (b, r) \<longrightarrow>
                 \<not> b \<and> ValidationErrors r \<noteq> []) \<and>
          (\<not> IsValid (BaseTemplate cfg) \<or> Get (BaseTemplate cfg) = None \<or>
           (\<exists>T. Get (BaseTemplate cfg) = Some T \<and> ParentChainEnds h T) \<longrightarrow>
             (\<exists>r. ValidateConfiguration h cfg r0 = Some (False, r) \<and>
                  ValidationErrors r \<noteq> [])) \<and>
          (\<forall>T r1. IsValid (BaseTemplate cfg) \<and> Get (BaseTemplate cfg) = Some T \<and>
                  ValidateTemplate h T DefaultResult = Some (True, r1) \<longrightarrow>
             ValidateConfiguration h cfg r0 =
               Some (False, r1\<lparr>bIsValid := False,
                               ValidationErrors := [InvalidStatMultiplier v k]\<rparr>)) \<and>
          (\<forall>T r1. IsValid (BaseTemplate cfg) \<and> Get (BaseTemplate cfg) = Some T \<and>
                  ValidateTemplate h T DefaultResult = Some (False, r1) \<longrightarrow>
             ValidateConfiguration h cfg r0 = Some (False, r1))"
    by (elim exE conjE) (rule that; assumption)
  note at2 = spec[OF spec[OF spec[OF spec[OF spec[OF val2, of FamilyHeap],
                 of ZeroDamageConfiguration], of DefaultResult], of "Name ''Damage''"], of 0]
  from mp[OF at2 conjI[OF refl f2]]
  have exact2: "\<forall>T r1. IsValid (BaseTemplate ZeroDamageConfiguration) \<and>
                  Get (BaseTemplate ZeroDamageConfiguration) = Some T \<and>
                  ValidateTemplate FamilyHeap T DefaultResult = Some (True, r1) \<longrightarrow>
             ValidateConfiguration FamilyHeap ZeroDamageConfiguration DefaultResult =
               Some (False, r1\<lparr>bIsValid := False,
                               ValidationErrors := [InvalidStatMultiplier 0 (Name ''Damage'')]\<rparr>)"
    by (elim conjE)
  from mp[OF spec[OF spec[OF exact2, of Addr0]]
            conjI[OF b2(1) conjI[OF b2(2) family_root[of DefaultResult]]]]
  have v: "ValidateConfiguration FamilyHeap ZeroDamageConfiguration DefaultResult =
     Some (False, \<lparr>bIsValid = False,
                   ValidationErrors = [InvalidStatMultiplier 0 (Name ''Damage'')],
                   ValidationWarnings = [NoAnimBP]\<rparr>)"
    by simp
  from spec[OF spec[OF spec[OF one2, of StatDamage], of "Name ''Damage''"], of 0]
  have "StatValue StatDamage (FinalStats eff2) =
      FloatProduct (StatValue StatDamage (BaseStats (FamilyHeap Addr0))) 0"
    by (simp add: m2)
  then have d2: "Damage (FinalStats eff2) = FloatProduct (FloatValue 20) 0" by (simp add: base)
  from e1 hd1 sp1 fr1 e2 d2 v show ?thesis by simp
qed

subsection \<open>C3: effective abilities\<close>

text \<open>
  C3 states that for every template and every modification \<open>ApplyToInstance\<close> applies
  the template's abilities, each replaced by its override if the modification has one.
  The loop over the abilities is guarded by the presence of an ability system component
  on the instance. On the character below, which has none, the call returns normally
  and no ability of the template is applied.
\<close>

theorem ApplyToInstance_without_ability_system_counterexample:
  "Abilities (FamilyHeap Addr0) = [ExampleAbility (Name ''BasicAttack'') 200 True] \<and>
   ApplyToInstance FieldNameLookup (FamilyHeap Addr0) (Some BareCharacter)
       (Some (Modifications FireballConfiguration)) =
     Some \<lparr>FinalStats = ExampleStats, FinalVisuals = ExampleVisuals True False,
           FinalAIConfig = ExampleAI True False, AppliedAbilities = [],
           GrantedAbilities = []\<rparr>"
  by (simp add: ApplyToInstance_def Let_def BareCharacter_def FamilyHeap_def
      FireballConfiguration_def ExampleTemplate_def ExampleConfiguration_def
      ExampleModification_def)

text \<open>
  C3 as amended: for every template, every modification and every non-null instance,
  \<open>ApplyToInstance\<close> returns normally. On an instance without ability system component
  it applies no ability. On an instance with one, \<open>ApplyAbility\<close> is called once for each
  ability of the template, in the template's order; the argument at position \<open>i\<close> is the
  override stored under the name of the template's ability \<open>i\<close> if the modification has
  one, and that ability itself otherwise, so a modification whose keys name no template
  ability has the template's list applied unchanged. Of these arguments the ability
  system is given exactly those with a valid ability class, in the same order. Entries
  of the modification whose key names no template ability can be deleted without
  changing anything \<open>ApplyToInstance\<close> does. When the template passes
  \<open>ValidateTemplate\<close>, no multiplier is \<open>\<le> 0\<close> and the first bad key of the modified
  abilities is a name \<open>k\<close> other than \<open>None\<close>, then \<open>k\<close> names no template ability and
  the only error of \<open>ValidateConfiguration\<close> is the one for the unknown ability \<open>k\<close>. The
  instance that follows is the example of the specification: abilities [BasicAttack], a
  modification keyed Fireball, BasicAttack applied unmodified, and the validation error
  for the unknown ability Fireball.
\<close>

theorem ApplyToInstance_effective_abilities:
  "\<exists>eff. ApplyToInstance resolve this (Some Instance) Modification = Some eff \<and>
     (\<not> HasAbilitySystemComponent Instance \<longrightarrow>
        AppliedAbilities eff = [] \<and> GrantedAbilities eff = []) \<and>
     (HasAbilitySystemComponent Instance \<longrightarrow>
        length (AppliedAbilities eff) = length (Abilities this) \<and>
        (\<forall>i < length (Abilities this).
           AppliedAbilities eff ! i = EffectiveAbility Modification (Abilities this ! i)) \<and>
        (\<forall>M. Modification = Some M \<and>
             (\<forall>(k, d) \<in> set (ModifiedAbilities M). k \<notin> AbilityName ` set (Abilities this)) \<longrightarrow>
           AppliedAbilities eff = Abilities this) \<and>
        (Modification = None \<longrightarrow> AppliedAbilities eff = Abilities this)) \<and>
     GrantedAbilities eff = filter (\<lambda>a. IsValid (AbilityClass a)) (AppliedAbilities eff) \<and>
     (\<forall>M. Modification = Some M \<longrightarrow>
        ApplyToInstance resolve this (Some Instance)
          (Some (M\<lparr>ModifiedAbilities :=
                     filter (\<lambda>(k, d). k \<in> AbilityName ` set (Abilities this))
                       (ModifiedAbilities M)\<rparr>)) = Some eff) \<and>
     (\<forall>(h :: 'a heap) cfg T r0 r1 k d.
        Modification = Some (Modifications cfg) \<and> IsValid (BaseTemplate cfg) \<and>
        Get (BaseTemplate cfg) = Some T \<and> h T = this \<and>
        ValidateTemplate h T DefaultResult = Some (True, r1) \<and>
        find BadMultiplier (StatMultipliers (Modifications cfg)) = None \<and>
        find (BadAbilityKey (Abilities this)) (ModifiedAbilities (Modifications cfg)) = Some (k, d) \<and>
        \<not> IsNone k \<longrightarrow>
          k \<notin> AbilityName ` set (Abilities this) \<and>
          ValidateConfiguration h cfg r0 =
            Some (False, r1\<lparr>bIsValid := False,
                            ValidationErrors := [UnknownAbilityModification k]\<rparr>))"
proof -
  define calls where "calls = (if HasAbilitySystemComponent Instance
                        then ApplyAbilities_loop Modification (Abilities this) ([], [])
                        else ([], []))"
  obtain eff where run: "ApplyToInstance resolve this (Some Instance) Modification = Some eff"
    by (simp add: ApplyToInstance_def Let_def)
  have ab: "AppliedAbilities eff = fst calls" and gr: "GrantedAbilities eff = snd calls"
    using run by (auto simp: ApplyToInstance_def Let_def calls_def)
  have bare: "AppliedAbilities eff = [] \<and> GrantedAbilities eff = []"
    if "\<not> HasAbilitySystemComponent Instance"
    using that by (simp add: ab gr calls_def)
  have granted: "GrantedAbilities eff = filter (\<lambda>a. IsValid (AbilityClass a)) (AppliedAbilities eff)"
    by (simp add: ab gr calls_def ApplyAbilities_loop_map)
  have restrict: "ApplyToInstance resolve this (Some Instance)
          (Some (M\<lparr>ModifiedAbilities :=
                     filter (\<lambda>(k, d). k \<in> AbilityName ` set (Abilities this))
                       (ModifiedAbilities M)\<rparr>)) = Some eff"
    if "Modification = Some M" for M
  proof -
    have "ApplyAbilities_loop
            (Some (M\<lparr>ModifiedAbilities :=
                     filter (\<lambda>(k, d). k \<in> AbilityName ` set (Abilities this))
                       (ModifiedAbilities M)\<rparr>)) (Abilities this) ([], [])
          = ApplyAbilities_loop (Some M) (Abilities this) ([], [])"
      unfolding ApplyAbilities_loop_map
      by (simp add: EffectiveAbility_matching_only cong: map_cong)
    then have "ApplyToInstance resolve this (Some Instance)
          (Some (M\<lparr>ModifiedAbilities :=
                     filter (\<lambda>(k, d). k \<in> AbilityName ` set (Abilities this))
                       (ModifiedAbilities M)\<rparr>))
          = ApplyToInstance resolve this (Some Instance) (Some M)"
      by (simp add: ApplyToInstance_def)
    with run that show ?thesis by simp
  qed
  have with_component:
       "length (AppliedAbilities eff) = length (Abilities this) \<and>
        (\<forall>i < length (Abilities this).
           AppliedAbilities eff ! i = EffectiveAbility Modification (Abilities this ! i)) \<and>
        (\<forall>M. Modification = Some M \<and>
             (\<forall>(k, d) \<in> set (ModifiedAbilities M). k \<notin> AbilityName ` set (Abilities this)) \<longrightarrow>
           AppliedAbilities eff = Abilities this) \<and>
        (Modification = None \<longrightarrow> AppliedAbilities eff = Abilities this)"
    if c: "HasAbilitySystemComponent Instance"
  proof -
    have m: "AppliedAbilities eff = map (EffectiveAbility Modification) (Abilities this)"
      using c by (simp add: ab calls_def ApplyAbilities_loop_map)
    have len: "length (AppliedAbilities eff) = length (Abilities this)"
      by (simp add: m)
    have nth: "\<forall>i < length (Abilities this).
        AppliedAbilities eff ! i = EffectiveAbility Modification (Abilities this ! i)"
      by (simp add: m)
    have inert: "AppliedAbilities eff = Abilities this"
      if "Modification = Some M"
        "\<forall>(k, d) \<in> set (ModifiedAbilities M). k \<notin> AbilityName ` set (Abilities this)" for M
    proof -
      have "map_of (ModifiedAbilities M) (AbilityName a) = None" if "a \<in> set (Abilities this)" for a
      proof (cases "map_of (ModifiedAbilities M) (AbilityName a)")
        case (Some d)
        then have "(AbilityName a, d) \<in> set (ModifiedAbilities M)" by (rule map_of_SomeD)
        with \<open>\<forall>(k, d) \<in> set (ModifiedAbilities M). k \<notin> AbilityName ` set (Abilities this)\<close> that
        show ?thesis by auto
      qed simp
      then have "map (EffectiveAbility (Some M)) (Abilities this) = map (\<lambda>a. a) (Abilities this)"
        by (intro map_cong[OF refl]) (simp add: EffectiveAbility_def)
      with m that(1) show ?thesis by simp
    qed
    have nomod: "AppliedAbilities eff = Abilities this" if "Modification = None"
      using m that by (simp add: EffectiveAbility_def map_idI)
    from len nth inert nomod show ?thesis by blast
  qed
  have reported: "k \<notin> AbilityName ` set (Abilities this) \<and>
          ValidateConfiguration h cfg r0 =
            Some (False, r1\<lparr>bIsValid := False,
                            ValidationErrors := [UnknownAbilityModification k]\<rparr>)"
    if a: "IsValid (BaseTemplate cfg)" and b: "Get (BaseTemplate cfg) = Some T"
      and t: "h T = this" and c: "ValidateTemplate h T DefaultResult = Some (True, r1)"
      and f1: "find BadMultiplier (StatMultipliers (Modifications cfg)) = None"
      and f2: "find (BadAbilityKey (Abilities this)) (ModifiedAbilities (Modifications cfg)) = Some (k, d)"
      and n: "\<not> IsNone k"
    for h :: "'a heap" and cfg T r0 r1 k d
  proof -
    from f2 have "BadAbilityKey (Abilities this) (k, d)" by (rule find_Some_holds)
    with n have unknown: "k \<notin> AbilityName ` set (Abilities this)"
      by (simp add: bAbilityFound_iff)
    from ValidateTemplate_inv[OF c] have e1: "ValidationErrors r1 = []"
      unfolding result_inv_def by blast
    have "ValidateConfiguration h cfg r0 =
            Some (False, r1\<lparr>bIsValid := False,
                            ValidationErrors := [UnknownAbilityModification k]\<rparr>)"
      unfolding ValidateConfiguration_valid_template[OF a b c]
      using f2 by (simp add: f1 t n e1 AddError_def)
    with unknown show ?thesis by simp
  qed
  show ?thesis
  proof (rule exI[of _ eff], intro conjI)
    show "ApplyToInstance resolve this (Some Instance) Modification = Some eff" by (rule run)
    show "\<not> HasAbilitySystemComponent Instance \<longrightarrow>
        AppliedAbilities eff = [] \<and> GrantedAbilities eff = []"
      by (intro impI, rule bare)
    show "HasAbilitySystemComponent Instance \<longrightarrow>
        length (AppliedAbilities eff) = length (Abilities this) \<and>
        (\<forall>i < length (Abilities this).
           AppliedAbilities eff ! i = EffectiveAbility Modification (Abilities this ! i)) \<and>
        (\<forall>M. Modification = Some M \<and>
             (\<forall>(k, d) \<in> set (ModifiedAbilities M). k \<notin> AbilityName ` set (Abilities this)) \<longrightarrow>
           AppliedAbilities eff = Abilities this) \<and>
        (Modification = None \<longrightarrow> AppliedAbilities eff = Abilities this)"
      by (intro impI, rule with_component)
    show "GrantedAbilities eff = filter (\<lambda>a. IsValid (AbilityClass a)) (AppliedAbilities eff)"
      by (rule granted)
    show "\<forall>M. Modification = Some M \<longrightarrow>
        ApplyToInstance resolve this (Some Instance)
          (Some (M\<lparr>ModifiedAbilities :=
                     filter (\<lambda>(k, d). k \<in> AbilityName ` set (Abilities this))
                       (ModifiedAbilities M)\<rparr>)) = Some eff"
      by (intro allI impI, rule restrict)
    show "\<forall>(h :: 'a heap) cfg T r0 r1 k d.
        Modification = Some (Modifications cfg) \<and> IsValid (BaseTemplate cfg) \<and>
        Get (BaseTemplate cfg) = Some T \<and> h T = this \<and>
        ValidateTemplate h T DefaultResult = Some (True, r1) \<and>
        find BadMultiplier (StatMultipliers (Modifications cfg)) = None \<and>
        find (BadAbilityKey (Abilities this)) (ModifiedAbilities (Modifications cfg)) = Some (k, d) \<and>
        \<not> IsNone k \<longrightarrow>
          k \<notin> AbilityName ` set (Abilities this) \<and>
          ValidateConfiguration h cfg r0 =
            Some (False, r1\<lparr>bIsValid := False,
                            ValidationErrors := [UnknownAbilityModification k]\<rparr>)"
      by (intro allI impI, elim conjE, rule reported)
  qed
qed

theorem ApplyToInstance_effective_abilities_witness:
  "Abilities (FamilyHeap Addr0) = [ExampleAbility (Name ''BasicAttack'') 200 True] \<and>
   ModifiedAbilities (Modifications FireballConfiguration) =
     [(Name ''Fireball'', ExampleAbility (Name ''Fireball'') 800 True)] \<and>
   (\<exists>eff. ApplyToInstance FieldNameLookup (FamilyHeap Addr0) (Some ExampleCharacter)
            (Some (Modifications FireballConfiguration)) = Some eff \<and>
          AppliedAbilities eff = [ExampleAbility (Name ''BasicAttack'') 200 True] \<and>
          GrantedAbilities eff = [ExampleAbility (Name ''BasicAttack'') 200 True]) \<and>
   (\<exists>eff. ApplyToInstance FieldNameLookup (FamilyHeap Addr0) (Some BareCharacter)
            (Some (Modifications FireballConfiguration)) = Some eff \<and>
          AppliedAbilities eff = [] \<and> GrantedAbilities eff = []) \<and>
   ValidateConfiguration FamilyHeap FireballConfiguration DefaultResult =
     Some (False, \<lparr>bIsValid = False,
                   ValidationErrors = [UnknownAbilityModification (Name ''Fireball'')],
                   ValidationWarnings = [NoAnimBP]\<rparr>)"
proof -
  have c: "HasAbilitySystemComponent ExampleCharacter"
    by (simp add: ExampleCharacter_def)
  have nc: "\<not> HasAbilitySystemComponent BareCharacter"
    by (simp add: BareCharacter_def)
  have a: "Abilities (FamilyHeap Addr0) = [ExampleAbility (Name ''BasicAttack'') 200 True]"
    by (simp add: FamilyHeap_def ExampleTemplate_def)
  have m: "ModifiedAbilities (Modifications FireballConfiguration) =
     [(Name ''Fireball'', ExampleAbility (Name ''Fireball'') 800 True)]"
    by (simp add: FireballConfiguration_def ExampleConfiguration_def ExampleModification_def)
  have n: "AbilityName (ExampleAbility (Name ''BasicAttack'') 200 True) = Name ''BasicAttack''"
    "IsValid (AbilityClass (ExampleAbility (Name ''BasicAttack'') 200 True))"
    by (simp_all add: ExampleAbility_def ExampleAsset_def)
  have b: "IsValid (BaseTemplate FireballConfiguration)"
    "Get (BaseTemplate FireballConfiguration) = Some Addr0"
    by (simp_all add: example_defs FireballConfiguration_def)
  have f: "find BadMultiplier (StatMultipliers (Modifications FireballConfiguration)) = None"
    by (simp add: example_defs FireballConfiguration_def)
  have g: "find (BadAbilityKey (Abilities (FamilyHeap Addr0)))
             (ModifiedAbilities (Modifications FireballConfiguration))
           = Some (Name ''Fireball'', ExampleAbility (Name ''Fireball'') 800 True)"
    by (simp add: a m n)
  from ApplyToInstance_effective_abilities[of FieldNameLookup "FamilyHeap Addr0"
         ExampleCharacter "Some (Modifications FireballConfiguration)"]
  obtain eff1 where e1:
    "ApplyToInstance FieldNameLookup (FamilyHeap Addr0) (Some ExampleCharacter)
            (Some (Modifications FireballConfiguration)) = Some eff1"
    and w1: "HasAbilitySystemComponent ExampleCharacter \<longrightarrow>
        length (AppliedAbilities eff1) = length (Abilities (FamilyHeap Addr0)) \<and>
        (\<forall>i < length (Abilities (FamilyHeap Addr0)).
           AppliedAbilities eff1 ! i =
             EffectiveAbility (Some (Modifications FireballConfiguration)) (Abilities (FamilyHeap Addr0) ! i)) \<and>
        (\<forall>M. Some (Modifications FireballConfiguration) = Some M \<and>
             (\<forall>(k, d) \<in> set (ModifiedAbilities M). k \<notin> AbilityName ` set (Abilities (FamilyHeap Addr0))) \<longrightarrow>
           AppliedAbilities eff1 = Abilities (FamilyHeap Addr0)) \<and>
        (Some (Modifications FireballConfiguration) = None \<longrightarrow>
           AppliedAbilities eff1 = Abilities (FamilyHeap Addr0))"
    and g1: "GrantedAbilities eff1 = filter (\<lambda>a. IsValid (AbilityClass a)) (AppliedAbilities eff1)"
    and val1: "\<forall>(h :: ExampleAddr heap) cfg T r0 r1 k d.
        Some (Modifications FireballConfiguration) = Some (Modifications cfg) \<and>
        IsValid (BaseTemplate cfg) \<and>
        Get (BaseTemplate cfg) = Some T \<and> h T = FamilyHeap Addr0 \<and>
        ValidateTemplate h T DefaultResult = Some (True, r1) \<and>
        find BadMultiplier (StatMultipliers (Modifications cfg)) = None \<and>
        find (BadAbilityKey (Abilities (FamilyHeap Addr0))) (ModifiedAbilities (Modifications cfg)) = Some (k, d) \<and>
        \<not> IsNone k \<longrightarrow>
          k \<notin> AbilityName ` set (Abilities (FamilyHeap Addr0)) \<and>
          ValidateConfiguration h cfg r0 =
            Some (False, r1\<lparr>bIsValid := False,
                            ValidationErrors := [UnknownAbilityModification k]\<rparr>)"
    by (elim exE conjE) (rule that; assumption)
  note at1 = spec[OF spec[OF spec[OF spec[OF spec[OF spec[OF spec[OF val1, of FamilyHeap],
                 of FireballConfiguration], of Addr0], of DefaultResult],
                 of "\<lparr>bIsValid = True, ValidationErrors = [], ValidationWarnings = [NoAnimBP]\<rparr>"],
                 of "Name ''Fireball''"], of "ExampleAbility (Name ''Fireball'') 800 True"]
  have nn: "\<not> IsNone (Name ''Fireball'')" by simp
  from mp[OF at1 conjI[OF refl conjI[OF b(1) conjI[OF b(2) conjI[OF refl
            conjI[OF family_root[of DefaultResult] conjI[OF f conjI[OF g nn]]]]]]]]
  have v: "ValidateConfiguration FamilyHeap FireballConfiguration DefaultResult =
     Some (False, \<lparr>bIsValid = False,
                   ValidationErrors = [UnknownAbilityModification (Name ''Fireball'')],
                   ValidationWarnings = [NoAnimBP]\<rparr>)"
    by simp
  from mp[OF w1 c] have "\<forall>M. Some (Modifications FireballConfiguration) = Some M \<and>
             (\<forall>(k, d) \<in> set (ModifiedAbilities M). k \<notin> AbilityName ` set (Abilities (FamilyHeap Addr0))) \<longrightarrow>
           AppliedAbilities eff1 = Abilities (FamilyHeap Addr0)"
    by (elim conjE)
  then have ap1: "AppliedAbilities eff1 = Abilities (FamilyHeap Addr0)"
    by (simp add: m a n)
  from g1 have gr1: "GrantedAbilities eff1 = [ExampleAbility (Name ''BasicAttack'') 200 True]"
    by (simp add: ap1 a n)
  from ApplyToInstance_effective_abilities[of FieldNameLookup "FamilyHeap Addr0"
         BareCharacter "Some (Modifications FireballConfiguration)"]
  obtain eff2 where e2:
    "ApplyToInstance FieldNameLookup (FamilyHeap Addr0) (Some BareCharacter)
            (Some (Modifications FireballConfiguration)) = Some eff2"
    and w2: "\<not> HasAbilitySystemComponent BareCharacter \<longrightarrow>
        AppliedAbilities eff2 = [] \<and> GrantedAbilities eff2 = []"
    by (elim exE conjE) (rule that; assumption)
  from w2 nc have b2: "AppliedAbilities eff2 = []" "GrantedAbilities eff2 = []" by simp_all
  from a m e1 ap1 gr1 e2 b2 v show ?thesis by simp
qed

subsection \<open>C4: visuals and AI configuration\<close>

text \<open>
  C4: for every template and non-null instance, with a modification supplied the visual
  customization and the AI configuration handed on by \<open>ApplyToInstance\<close> are the records
  of the modification, whole, and do not depend on the template's own records; with no
  modification they are the template's records.
\<close>

theorem ApplyToInstance_visuals_and_ai_replaced:
  "(\<exists>eff. ApplyToInstance resolve this (Some Instance) (Some M) = Some eff \<and>
          FinalVisuals eff = VisualModifications M \<and> FinalAIConfig eff = AIModifications M) \<and>
   (\<exists>eff. ApplyToInstance resolve this (Some Instance) None = Some eff \<and>
          FinalVisuals eff = VisualCustomization this \<and> FinalAIConfig eff = AIConfig this) \<and>
   map_option FinalVisuals
     (ApplyToInstance resolve (this\<lparr>VisualCustomization := v, AIConfig := a\<rparr>)
        (Some Instance) (Some M)) =
   map_option FinalVisuals (ApplyToInstance resolve this (Some Instance) (Some M)) \<and>
   map_option FinalAIConfig
     (ApplyToInstance resolve (this\<lparr>VisualCustomization := v, AIConfig := a\<rparr>)
        (Some Instance) (Some M)) =
   map_option FinalAIConfig (ApplyToInstance resolve this (Some Instance) (Some M))"
  by (simp add: ApplyToInstance_def Let_def)

theorem ApplyToInstance_visuals_and_ai_replaced_witness:
  "(\<exists>eff. ApplyToInstance FieldNameLookup (FamilyHeap Addr0) (Some ExampleCharacter)
            (Some DoubleDamage) = Some eff \<and>
          FinalVisuals eff = ExampleVisuals True False \<and> FinalAIConfig eff = ExampleAI True False) \<and>
   (\<exists>eff. ApplyToInstance FieldNameLookup (FamilyHeap Addr1) (Some ExampleCharacter) None = Some eff \<and>
          FinalVisuals eff = ExampleVisuals False True \<and> FinalAIConfig eff = ExampleAI True True)"
proof -
  have m: "VisualModifications DoubleDamage = ExampleVisuals True False"
    "AIModifications DoubleDamage = ExampleAI True False"
    by (simp_all add: DoubleDamage_def ExampleModification_def)
  have t: "VisualCustomization (FamilyHeap Addr1) = ExampleVisuals False True"
    "AIConfig (FamilyHeap Addr1) = ExampleAI True True"
    by (simp_all add: FamilyHeap_def ExampleTemplate_def)
  from ApplyToInstance_visuals_and_ai_replaced
         [of FieldNameLookup "FamilyHeap Addr0" ExampleCharacter DoubleDamage]
       ApplyToInstance_visuals_and_ai_replaced
         [of FieldNameLookup "FamilyHeap Addr1" ExampleCharacter]
  show ?thesis unfolding m t by blast
qed

subsection \<open>C5: GetInheritanceChain\<close>





subsection \<open>C6: a template without skeletal mesh\<close>

text \<open>
  C6 states that a template without skeletal mesh is invalid with exactly the error
  "Skeletal mesh is required" and that no AI or ability error can be in the result. The
  identity check and the validation of the parent run before the visual check and do not
  stop the function: below, the child has no mesh, its parent has no behavior tree, and
  the result holds the parent's AI error before the mesh error.
\<close>

theorem ValidateTemplate_missing_mesh_counterexample:
  "\<not> IsValid (SkeletalMesh (VisualCustomization (FamilyHeap Addr1))) \<and>
   ValidateTemplate FamilyHeap Addr1 DefaultResult =
     Some (False, \<lparr>bIsValid = False,
                   ValidationErrors =
                     [InvalidParentTemplate (Name ''Parent''), NoBehaviorTree, NoSkeletalMesh],
                   ValidationWarnings = []\<rparr>) \<and>
   [InvalidParentTemplate (Name ''Parent''), NoBehaviorTree, NoSkeletalMesh] \<noteq> [NoSkeletalMesh]"
  by (simp add: family_child) (simp add: example_defs FamilyHeap_def)

text \<open>
  C6 as amended: for every template without skeletal mesh whose parent chain ends,
  \<open>ValidateTemplate\<close> returns false with an invalid result. Its errors are the error for
  a missing name, if the name is missing, then the wrapped errors of the parent, if the
  parent is invalid, then "Skeletal mesh is required" as the last error; the warnings are
  those of the identity check. Nothing of the template's own AI configuration or
  abilities enters the result. For a named template without parent the error list is
  exactly the mesh error. With a mesh present, \<open>ValidateVisualAssets\<close> returns true and
  leaves flag and errors as they are; a missing animation blueprint adds one warning.
\<close>

theorem ValidateTemplate_missing_mesh:
  "(\<not> IsValid (SkeletalMesh (VisualCustomization (h t))) \<and> ParentChainEnds h t \<longrightarrow>
      (\<exists>r. ValidateTemplate h t r0 = Some (False, r) \<and> \<not> bIsValid r \<and>
            ValidationErrors r = IdentityErrors (h t) @ ParentErrors h t @ [NoSkeletalMesh] \<and>
            ValidationWarnings r = IdentityWarnings (h t) \<and>
            (\<not> IsNone (TemplateName (h t)) \<and> ParentTemplate (h t) = None \<longrightarrow>
               ValidationErrors r = [NoSkeletalMesh]))) \<and>
   (IsValid (SkeletalMesh (VisualCustomization T)) \<longrightarrow>
      (\<exists>r'. ValidateVisualAssets T r1 = (True, r') \<and> bIsValid r' = bIsValid r1 \<and>
             ValidationErrors r' = ValidationErrors r1 \<and>
             ValidationWarnings r' =
               ValidationWarnings r1 @
               (if IsValid (AnimationBlueprint (VisualCustomization T)) then [] else [NoAnimBP])))"
proof (intro conjI impI)
  assume a: "\<not> IsValid (SkeletalMesh (VisualCustomization (h t))) \<and> ParentChainEnds h t"
  then obtain res where "ValidateTemplate h t r0 = Some res"
    using ValidateTemplate_returns[of h t r0] by blast
  then obtain b r where run: "ValidateTemplate h t r0 = Some (b, r)" by (cases res) simp
  note facts = ValidateTemplate_no_mesh[OF conjunct1[OF a] run]
  have "ValidationErrors r = [NoSkeletalMesh]"
    if "\<not> IsNone (TemplateName (h t)) \<and> ParentTemplate (h t) = None"
    using facts(3) that by (simp add: IdentityErrors_def ParentErrors_def)
  with run facts show "\<exists>r. ValidateTemplate h t r0 = Some (False, r) \<and> \<not> bIsValid r \<and>
            ValidationErrors r = IdentityErrors (h t) @ ParentErrors h t @ [NoSkeletalMesh] \<and>
            ValidationWarnings r = IdentityWarnings (h t) \<and>
            (\<not> IsNone (TemplateName (h t)) \<and> ParentTemplate (h t) = None \<longrightarrow>
               ValidationErrors r = [NoSkeletalMesh])"
    by auto
next
  assume "IsValid (SkeletalMesh (VisualCustomization T))"
  then show "\<exists>r'. ValidateVisualAssets T r1 = (True, r') \<and> bIsValid r' = bIsValid r1 \<and>
             ValidationErrors r' = ValidationErrors r1 \<and>
             ValidationWarnings r' =
               ValidationWarnings r1 @
               (if IsValid (AnimationBlueprint (VisualCustomization T)) then [] else [NoAnimBP])"
    by (simp add: ValidateVisualAssets_with_mesh AddWarning_def)
qed

theorem ValidateTemplate_missing_mesh_witness:
  "\<not> IsValid (SkeletalMesh (VisualCustomization (NamelessHeap Addr0))) \<and>
   ParentChainEnds NamelessHeap Addr0 \<and>
   (\<exists>r. ValidateTemplate NamelessHeap Addr0 DefaultResult = Some (False, r) \<and>
        ValidationErrors r = [NoTemplateName, NoSkeletalMesh] \<and>
        ValidationWarnings r = [NoDisplayName]) \<and>
   \<not> IsValid (SkeletalMesh (VisualCustomization (FamilyHeap Addr1))) \<and>
   ParentChainEnds FamilyHeap Addr1 \<and>
   (\<exists>r. ValidateTemplate FamilyHeap Addr1 DefaultResult = Some (False, r) \<and>
        ValidationErrors r = [InvalidParentTemplate (Name ''Parent''), NoBehaviorTree, NoSkeletalMesh]) \<and>
   IsValid (SkeletalMesh (VisualCustomization (FamilyHeap Addr0))) \<and>
   ValidateVisualAssets (FamilyHeap Addr0) DefaultResult = (True, AddWarning NoAnimBP DefaultResult)"
proof -
  have m: "\<not> IsValid (SkeletalMesh (VisualCustomization (NamelessHeap Addr0)))"
    "\<not> IsValid (SkeletalMesh (VisualCustomization (FamilyHeap Addr1)))"
    "IsValid (SkeletalMesh (VisualCustomization (FamilyHeap Addr0)))"
    "\<not> IsValid (AnimationBlueprint (VisualCustomization (FamilyHeap Addr0)))"
    by (simp_all add: example_defs FamilyHeap_def NamelessHeap_def)
  have e1: "IdentityErrors (NamelessHeap Addr0) = [NoTemplateName]"
    "ParentErrors NamelessHeap Addr0 = []" "IdentityWarnings (NamelessHeap Addr0) = [NoDisplayName]"
    by (simp_all add: IdentityErrors_def ParentErrors_def IdentityWarnings_def NamelessHeap_def
        ExampleTemplate_def)
  have e2: "IdentityErrors (FamilyHeap Addr1) = []"
    "ParentErrors FamilyHeap Addr1 = [InvalidParentTemplate (Name ''Parent''), NoBehaviorTree]"
    by (simp_all add: IdentityErrors_def ParentErrors_def family_parent FamilyHeap_def
        ExampleTemplate_def)
  from ValidateTemplate_missing_mesh[of NamelessHeap Addr0 DefaultResult "FamilyHeap Addr0" DefaultResult]
    m nameless_chain_ends[of Addr0]
  have w1: "\<exists>r. ValidateTemplate NamelessHeap Addr0 DefaultResult = Some (False, r) \<and>
        ValidationErrors r = [NoTemplateName, NoSkeletalMesh] \<and>
        ValidationWarnings r = [NoDisplayName]"
    and w3: "ValidateVisualAssets (FamilyHeap Addr0) DefaultResult = (True, AddWarning NoAnimBP DefaultResult)"
    unfolding e1 by (auto simp: AddWarning_def)
  from ValidateTemplate_missing_mesh[of FamilyHeap Addr1 DefaultResult "FamilyHeap Addr0" DefaultResult]
    m family_chain_ends
  have w2: "\<exists>r. ValidateTemplate FamilyHeap Addr1 DefaultResult = Some (False, r) \<and>
        ValidationErrors r = [InvalidParentTemplate (Name ''Parent''), NoBehaviorTree, NoSkeletalMesh]"
    unfolding e2 by auto
  from m nameless_chain_ends[of Addr0] family_chain_ends w1 w2 w3 show ?thesis by blast
qed

subsection \<open>C7: ValidateTemplate is idempotent\<close>

text \<open>
  C7: the outcome of \<open>ValidateTemplate\<close> on a heap and a template does not depend on
  the result object passed in, since that is cleared first; in particular a second call
  that is handed the result of the first returns the same boolean and the same result,
  with the same errors and warnings in the same order. The function reads the heap and
  does not change it, and it reads no cache: on a heap that differs only in cached chains,
  as after a call of \<open>GetInheritanceChain\<close> between the two validations, the outcome is
  the same.
\<close>

theorem ValidateTemplate_idempotent:
  "ValidateTemplate h t r = ValidateTemplate h t r' \<and>
   (ValidateTemplate h t r = Some (b, out) \<longrightarrow> ValidateTemplate h t out = Some (b, out)) \<and>
   (SameTemplateFields h h' \<longrightarrow> ValidateTemplate h' t r' = ValidateTemplate h t r)"
proof (intro conjI impI)
  show "ValidateTemplate h t r = ValidateTemplate h t r'"
    by (rule ValidateTemplate_cleared)
next
  assume "ValidateTemplate h t r = Some (b, out)"
  then show "ValidateTemplate h t out = Some (b, out)"
    by (simp only: ValidateTemplate_cleared[of h t out r])
next
  assume "SameTemplateFields h h'"
  then show "ValidateTemplate h' t r' = ValidateTemplate h t r"
    by (rule SameTemplateFields_ValidateTemplate)
qed

theorem ValidateTemplate_idempotent_witness:
  "ValidateTemplate FamilyHeap Addr1 DefaultResult =
     Some (False, \<lparr>bIsValid = False,
                   ValidationErrors =
                     [InvalidParentTemplate (Name ''Parent''), NoBehaviorTree, NoSkeletalMesh],
                   ValidationWarnings = []\<rparr>) \<and>
   ValidateTemplate FamilyHeap Addr1
     \<lparr>bIsValid = False,
      ValidationErrors = [InvalidParentTemplate (Name ''Parent''), NoBehaviorTree, NoSkeletalMesh],
      ValidationWarnings = []\<rparr> =
     Some (False, \<lparr>bIsValid = False,
                   ValidationErrors =
                     [InvalidParentTemplate (Name ''Parent''), NoBehaviorTree, NoSkeletalMesh],
                   ValidationWarnings = []\<rparr>) \<and>
   SameTemplateFields FamilyHeap (snd (GetInheritanceChain FamilyHeap Addr1)) \<and>
   ValidateTemplate (snd (GetInheritanceChain FamilyHeap Addr1)) Addr1
     \<lparr>bIsValid = False,
      ValidationErrors = [InvalidParentTemplate (Name ''Parent''), NoBehaviorTree, NoSkeletalMesh],
      ValidationWarnings = []\<rparr> =
     Some (False, \<lparr>bIsValid = False,
                   ValidationErrors =
                     [InvalidParentTemplate (Name ''Parent''), NoBehaviorTree, NoSkeletalMesh],
                   ValidationWarnings = []\<rparr>)"
proof -
  let ?out = "\<lparr>bIsValid = False,
        ValidationErrors = [InvalidParentTemplate (Name ''Parent''), NoBehaviorTree, NoSkeletalMesh],
        ValidationWarnings = []\<rparr>"
  have first: "ValidateTemplate FamilyHeap Addr1 DefaultResult = Some (False, ?out)"
    by (rule family_child)
  have same: "SameTemplateFields FamilyHeap (snd (GetInheritanceChain FamilyHeap Addr1))"
    by (rule GetInheritanceChain_SameTemplateFields)
  note inst = ValidateTemplate_idempotent[of FamilyHeap Addr1 DefaultResult ?out False ?out
      "snd (GetInheritanceChain FamilyHeap Addr1)"]
  have second: "ValidateTemplate FamilyHeap Addr1 ?out = Some (False, ?out)"
    by (rule mp[OF conjunct1[OF conjunct2[OF inst]] first])
  have "ValidateTemplate (snd (GetInheritanceChain FamilyHeap Addr1)) Addr1 ?out
          = ValidateTemplate FamilyHeap Addr1 DefaultResult"
    by (rule mp[OF conjunct2[OF conjunct2[OF inst]] same])
  then have third: "ValidateTemplate (snd (GetInheritanceChain FamilyHeap Addr1)) Addr1 ?out
                 = Some (False, ?out)"
    by (rule trans[OF _ first])
  show ?thesis
    by (intro conjI) (rule first second same third)+
qed

subsection \<open>C8: ValidateConfiguration without base template\<close>

text \<open>
  C8: for every configuration whose base-template reference is not valid,
  \<open>ValidateConfiguration\<close> returns false with an invalid result whose only error is "No
  base template specified" and no warning; when the reference is valid and resolves to
  null, the only error is "Base template reference is invalid". In both cases the call
  returns, and the outcome is the same for every value of the modifications.
\<close>

theorem ValidateConfiguration_missing_base_template:
  "(\<not> IsValid (BaseTemplate cfg) \<longrightarrow>
      ValidateConfiguration h cfg r0 =
        Some (False, \<lparr>bIsValid = False, ValidationErrors = [NoBaseTemplate],
                      ValidationWarnings = []\<rparr>)) \<and>
   (IsValid (BaseTemplate cfg) \<and> Get (BaseTemplate cfg) = None \<longrightarrow>
      ValidateConfiguration h cfg r0 =
        Some (False, \<lparr>bIsValid = False, ValidationErrors = [InvalidBaseTemplate],
                      ValidationWarnings = []\<rparr>)) \<and>
   (\<not> IsValid (BaseTemplate cfg) \<or> Get (BaseTemplate cfg) = None \<longrightarrow>
      ValidateConfiguration h (cfg\<lparr>Modifications := M'\<rparr>) r0 = ValidateConfiguration h cfg r0)"
  by (simp add: ValidateConfiguration_def Let_def Clear_def AddError_def)

theorem ValidateConfiguration_missing_base_template_witness:
  "\<not> IsValid (BaseTemplate MissingBaseConfiguration) \<and>
   ValidateConfiguration FamilyHeap MissingBaseConfiguration DefaultResult =
     Some (False, \<lparr>bIsValid = False, ValidationErrors = [NoBaseTemplate],
                   ValidationWarnings = []\<rparr>) \<and>
   IsValid (BaseTemplate UnresolvedBaseConfiguration) \<and>
   Get (BaseTemplate UnresolvedBaseConfiguration) = None \<and>
   ValidateConfiguration FamilyHeap UnresolvedBaseConfiguration DefaultResult =
     Some (False, \<lparr>bIsValid = False, ValidationErrors = [InvalidBaseTemplate],
                   ValidationWarnings = []\<rparr>)"
proof -
  have a: "\<not> IsValid (BaseTemplate MissingBaseConfiguration)"
    by (simp add: MissingBaseConfiguration_def ExampleConfiguration_def)
  have b: "IsValid (BaseTemplate UnresolvedBaseConfiguration)"
    "Get (BaseTemplate UnresolvedBaseConfiguration) = None"
    by (simp_all add: UnresolvedBaseConfiguration_def ExampleConfiguration_def)
  from ValidateConfiguration_missing_base_template[of MissingBaseConfiguration FamilyHeap DefaultResult]
    ValidateConfiguration_missing_base_template[of UnresolvedBaseConfiguration FamilyHeap DefaultResult]
    a b show ?thesis by simp
qed

subsection \<open>C9: termination of ValidateTemplate\<close>

text \<open>
  C9: on a heap with finitely many addresses, a call of \<open>ValidateTemplate\<close> returns if
  and only if the parent chain of the template is acyclic; on a cyclic chain it does not
  return. Acyclic chains are those that end at a template without parent. The instance
  that follows contrasts the two traversals on the cycle T1, T2, T1: \<open>ValidateTemplate\<close>
  does not return, the loop of \<open>GetInheritanceChain\<close> returns T1, T2.
\<close>

theorem ValidateTemplate_terminates_iff_acyclic:
  fixes h :: "('a::finite) heap"
  shows "((\<exists>res. ValidateTemplate h t r = Some res) = (\<not> CyclicParentChain h t)) \<and>
         (CyclicParentChain h t \<longrightarrow> ValidateTemplate h t r = None) \<and>
         (ParentChainEnds h t = (\<not> CyclicParentChain h t))"
proof -
  have a: "(\<exists>res. ValidateTemplate h t r = Some res) = ParentChainEnds h t"
  proof
    assume "\<exists>res. ValidateTemplate h t r = Some res"
    then obtain res where "ValidateTemplate h t r = Some res" ..
    then show "ParentChainEnds h t" by (rule ValidateTemplate_returns_only)
  next
    assume "ParentChainEnds h t"
    then show "\<exists>res. ValidateTemplate h t r = Some res" by (rule ValidateTemplate_returns)
  qed
  have b: "ParentChainEnds h t = (\<not> CyclicParentChain h t)"
    by (rule ParentChainEnds_iff_acyclic)
  from a b show ?thesis by (cases "ValidateTemplate h t r") auto
qed

theorem ValidateTemplate_terminates_iff_acyclic_witness:
  "\<not> CyclicParentChain FamilyHeap Addr1 \<and>
   (\<exists>res. ValidateTemplate FamilyHeap Addr1 DefaultResult = Some res) \<and>
   CyclicParentChain CycleHeap Addr1 \<and>
   ValidateTemplate CycleHeap Addr1 DefaultResult = None \<and>
   GetInheritanceChain_loop CycleHeap [] (Some Addr1) = [Addr1, Addr2]"
proof -
  have g: "GetInheritanceChain_loop CycleHeap [] (Some Addr1) = [Addr1, Addr2]"
    by (simp add: CycleHeap_def ExampleTemplate_def)
  from ValidateTemplate_terminates_iff_acyclic[of FamilyHeap Addr1 DefaultResult]
    ValidateTemplate_terminates_iff_acyclic[of CycleHeap Addr1 DefaultResult]
    family_chain_ends(3) cycle_is_cyclic g
  show ?thesis by simp
qed

subsection \<open>C10: the return value and the validity flag\<close>

text \<open>
  C10: every call of \<open>ValidateTemplate\<close> on a template whose parent chain ends returns,
  and every call of \<open>ValidateConfiguration\<close> returns when the base template is missing or
  its parent chain ends. Whenever either function returns, the boolean it returns is the
  flag of the result, and the flag is false exactly when the error list is not empty.
  \<open>AddWarning\<close> changes neither flag nor errors; \<open>AddError\<close> clears the flag. The
  instance that follows starts with a template whose invalid parent has its errors
  appended.
\<close>

theorem validation_return_equals_flag:
  "(ParentChainEnds h t \<longrightarrow>
      (\<exists>b r. ValidateTemplate h t r0 = Some (b, r) \<and> b = bIsValid r \<and>
             (\<not> bIsValid r) = (ValidationErrors r \<noteq> []))) \<and>
   (ValidateTemplate h t r0 = Some (b, r) \<longrightarrow>
      b = bIsValid r \<and> (\<not> bIsValid r) = (ValidationErrors r \<noteq> [])) \<and>
   (ValidateConfiguration h cfg r0 = Some (b', r') \<longrightarrow>
      b' = bIsValid r' \<and> (\<not> bIsValid r') = (ValidationErrors r' \<noteq> [])) \<and>
   ((\<not> IsValid (BaseTemplate cfg) \<or> Get (BaseTemplate cfg) = None \<or>
     (\<exists>T. Get (BaseTemplate cfg) = Some T \<and> ParentChainEnds h T)) \<longrightarrow>
      (\<exists>b r. ValidateConfiguration h cfg r0 = Some (b, r))) \<and>
   bIsValid (AddWarning w r1) = bIsValid r1 \<and>
   ValidationErrors (AddWarning w r1) = ValidationErrors r1 \<and>
   \<not> bIsValid (AddError e r1) \<and> ValidationErrors (AddError e r1) \<noteq> []"
proof -
  have vt: "b = bIsValid r \<and> (\<not> bIsValid r) = (ValidationErrors r \<noteq> [])"
    if "ValidateTemplate h t r0 = Some (b, r)" for b r
    using ValidateTemplate_inv[OF that] unfolding result_inv_def by blast
  have vt_total: "\<exists>b r. ValidateTemplate h t r0 = Some (b, r) \<and> b = bIsValid r \<and>
             (\<not> bIsValid r) = (ValidationErrors r \<noteq> [])" if "ParentChainEnds h t"
  proof -
    from ValidateTemplate_returns[OF that, of r0] obtain res where "ValidateTemplate h t r0 = Some res" ..
    then obtain b r where "ValidateTemplate h t r0 = Some (b, r)" by (cases res) simp
    with vt[OF this] show ?thesis by blast
  qed
  have vc: "b' = bIsValid r' \<and> (\<not> bIsValid r') = (ValidationErrors r' \<noteq> [])"
    if "ValidateConfiguration h cfg r0 = Some (b', r')"
    using ValidateConfiguration_inv[OF that] unfolding result_inv_def by blast
  have vc_total: "\<exists>b r. ValidateConfiguration h cfg r0 = Some (b, r)"
    if c: "\<not> IsValid (BaseTemplate cfg) \<or> Get (BaseTemplate cfg) = None \<or>
     (\<exists>T. Get (BaseTemplate cfg) = Some T \<and> ParentChainEnds h T)"
  proof (cases "\<not> IsValid (BaseTemplate cfg) \<or> Get (BaseTemplate cfg) = None")
    case True
    then show ?thesis by (auto simp: ValidateConfiguration_def Let_def)
  next
    case False
    with c obtain T where T: "Get (BaseTemplate cfg) = Some T" "ParentChainEnds h T" by blast
    from ValidateTemplate_returns[OF T(2), of "Clear r0"]
    obtain res where "ValidateTemplate h T (Clear r0) = Some res" ..
    then obtain ok r1 where "ValidateTemplate h T (Clear r0) = Some (ok, r1)" by (cases res) simp
    with False T(1) show ?thesis
      by (auto simp: ValidateConfiguration_def Let_def split: prod.splits bool.splits)
  qed
  have w: "bIsValid (AddWarning w r1) = bIsValid r1 \<and>
   ValidationErrors (AddWarning w r1) = ValidationErrors r1 \<and>
   \<not> bIsValid (AddError e r1) \<and> ValidationErrors (AddError e r1) \<noteq> []"
    by (simp add: AddWarning_def AddError_def)
  from vt vt_total vc vc_total w show ?thesis by blast
qed

theorem validation_return_equals_flag_witness:
  "ParentChainEnds FamilyHeap Addr1 \<and>
   ValidateTemplate FamilyHeap Addr1 DefaultResult =
     Some (False, \<lparr>bIsValid = False,
                   ValidationErrors =
                     [InvalidParentTemplate (Name ''Parent''), NoBehaviorTree, NoSkeletalMesh],
                   ValidationWarnings = []\<rparr>) \<and>
   ValidateConfiguration FamilyHeap FireballConfiguration DefaultResult =
     Some (False, \<lparr>bIsValid = False,
                   ValidationErrors = [UnknownAbilityModification (Name ''Fireball'')],
                   ValidationWarnings = [NoAnimBP]\<rparr>) \<and>
   (\<exists>T. Get (BaseTemplate FireballConfiguration) = Some T \<and> ParentChainEnds FamilyHeap T)"
proof -
  have v: "ValidateConfiguration FamilyHeap FireballConfiguration DefaultResult =
     Some (False, \<lparr>bIsValid = False,
                   ValidationErrors = [UnknownAbilityModification (Name ''Fireball'')],
                   ValidationWarnings = [NoAnimBP]\<rparr>)"
    by (simp add: validation_defs example_defs FamilyHeap_def FireballConfiguration_def)
  have g: "Get (BaseTemplate FireballConfiguration) = Some Addr0"
    by (simp add: example_defs FamilyHeap_def FireballConfiguration_def)
  from validation_return_equals_flag[of FamilyHeap Addr1 DefaultResult False
      "\<lparr>bIsValid = False,
        ValidationErrors = [InvalidParentTemplate (Name ''Parent''), NoBehaviorTree, NoSkeletalMesh],
        ValidationWarnings = []\<rparr>" FireballConfiguration False
      "\<lparr>bIsValid = False,
                   ValidationErrors = [UnknownAbilityModification (Name ''Fireball'')],
                   ValidationWarnings = [NoAnimBP]\<rparr>"]
    family_chain_ends family_child[of DefaultResult] v g
  show ?thesis by simp
qed

end
